theory Spec2Isabelle
  imports Main "HOL-Library.Extended_Nat" "HOL-Library.Option_ord" "HOL-Library.Product_Lexorder"
    "HOL-Library.AList"
begin

section \<open>Python values used by parser.py\<close>

text \<open>
  A Python \<open>str\<close> is a sequence of Unicode code points, so it is modelled as a list of
  natural numbers (the signs of \<open>Defaults\<close> contain code points above 255, which an
  Isabelle \<open>char\<close> cannot hold). \<open>asc\<close> turns an ASCII literal into such a list.
\<close>

type_synonym pystr = "nat list"

definition asc :: "string \<Rightarrow> pystr" where
  "asc s = map of_char s"

text \<open>
  The exceptions the code can raise. \<open>ParseError\<close> carries the message of the
  \<open>raise\<close> statement. \<open>FloatArith\<close> is not a Python exception: it marks a result
  of \<open>Defaults\<close> that needs floating-point arithmetic, which is not modelled.
\<close>

datatype pyerr =
    ParseError string
  | ValueError
  | IndexError
  | KeyError pystr
  | AttributeError
  | TypeError
  | ZeroDivisionError
  | FloatArith

text \<open>\<open>c.isspace()\<close> for one code point: the white space of the Unicode database.\<close>

definition isspace_char :: "nat \<Rightarrow> bool" where
  "isspace_char c \<longleftrightarrow>
     (9 \<le> c \<and> c \<le> 13) \<or> (28 \<le> c \<and> c \<le> 32) \<or> c = 133 \<or> c = 160 \<or> c = 5760 \<or>
     (8192 \<le> c \<and> c \<le> 8202) \<or> c = 8232 \<or> c = 8233 \<or> c = 8239 \<or> c = 8287 \<or> c = 12288"

text \<open>\<open>t.isspace()\<close> for a string: not empty, and every character is white space.\<close>

definition isspace :: "pystr \<Rightarrow> bool" where
  "isspace t \<longleftrightarrow> t \<noteq> [] \<and> list_all isspace_char t"

text \<open>
  Indexing a Python list, \<open>xs[i]\<close> and \<open>xs[i] = v\<close>: a negative index counts from the
  end, and an index out of range raises \<open>IndexError\<close>.
\<close>

definition py_index :: "nat \<Rightarrow> int \<Rightarrow> nat option" where
  "py_index len i =
     (if 0 \<le> i \<and> i < int len then Some (nat i)
      else if - int len \<le> i \<and> i < 0 then Some (nat (i + int len))
      else None)"

definition py_get :: "'a list \<Rightarrow> int \<Rightarrow> pyerr + 'a" where
  "py_get xs i = (case py_index (length xs) i of None \<Rightarrow> Inl IndexError | Some j \<Rightarrow> Inr (xs ! j))"

definition py_set :: "'a list \<Rightarrow> int \<Rightarrow> 'a \<Rightarrow> pyerr + 'a list" where
  "py_set xs i v =
     (case py_index (length xs) i of None \<Rightarrow> Inl IndexError | Some j \<Rightarrow> Inr (xs[j := v]))"

text \<open>The slices \<open>s[-n:]\<close> and \<open>s[:-n]\<close> for \<open>n = len(sign)\<close>; \<open>-0\<close> is \<open>0\<close>.\<close>

definition slice_from_neg :: "'a list \<Rightarrow> nat \<Rightarrow> 'a list" where
  "slice_from_neg s n = (if n = 0 then s else drop (length s - n) s)"

definition slice_to_neg :: "'a list \<Rightarrow> nat \<Rightarrow> 'a list" where
  "slice_to_neg s n = (if n = 0 then [] else take (length s - n) s)"

section \<open>Regular expressions of the constant types\<close>

text \<open>
  The patterns of \<open>ConstantType\<close> are given as syntax trees of the fragment that the
  patterns of the source use: a literal text, a character class \<open>[a-b...]\<close>, a class
  repeated \<open>{m,}\<close>, concatenation, alternation \<open>|\<close>, \<open>?\<close> and \<open>$\<close>.
  \<open>rx_rests r s\<close> lists, in backtracking order, what is left of \<open>s\<close> after each way
  of matching \<open>r\<close> at its start. \<open>regex.match(r, s)\<close> anchors the match at the start
  of \<open>s\<close> only and returns a match object iff there is such a way. \<open>$\<close> matches at the
  end of the string and before a newline that ends the string.
\<close>

datatype rx =
    Lit pystr
  | Class "(nat \<times> nat) list"
  | ClassRep "(nat \<times> nat) list" nat
  | Cat rx rx
  | Alt rx rx
  | Opt rx
  | Eol

definition in_class :: "(nat \<times> nat) list \<Rightarrow> nat \<Rightarrow> bool" where
  "in_class rs c = list_ex (\<lambda>(lo, hi). lo \<le> c \<and> c \<le> hi) rs"

fun class_rests :: "(nat \<times> nat) list \<Rightarrow> pystr \<Rightarrow> pystr list" where
  "class_rests rs [] = [[]]"
| "class_rests rs (c # cs) = (if in_class rs c then class_rests rs cs @ [c # cs] else [c # cs])"

fun rx_rests :: "rx \<Rightarrow> pystr \<Rightarrow> pystr list" where
  "rx_rests (Lit l) s = (if take (length l) s = l then [drop (length l) s] else [])"
| "rx_rests (Class rs) s = (case s of [] \<Rightarrow> [] | c # cs \<Rightarrow> if in_class rs c then [cs] else [])"
| "rx_rests (ClassRep rs m) s = filter (\<lambda>rest. m \<le> length s - length rest) (class_rests rs s)"
| "rx_rests (Cat a b) s = concat (map (rx_rests b) (rx_rests a s))"
| "rx_rests (Alt a b) s = rx_rests a s @ rx_rests b s"
| "rx_rests (Opt a) s = rx_rests a s @ [s]"
| "rx_rests Eol s = (if s = [] \<or> s = [10] then [s] else [])"

definition regex_match :: "rx \<Rightarrow> pystr \<Rightarrow> bool" where
  "regex_match r s \<longleftrightarrow> rx_rests r s \<noteq> []"

text \<open>The pattern matches the entire text: some way of matching leaves nothing.\<close>

definition regex_fullmatch :: "rx \<Rightarrow> pystr \<Rightarrow> bool" where
  "regex_fullmatch r s \<longleftrightarrow> [] \<in> set (rx_rests r s)"

section \<open>Operators, constant types and tokens\<close>

text \<open>
  \<open>class Operator\<close>. \<open>func\<close> is called with the list of its arguments and may raise.
  The priority \<open>-1\<close> is stored as \<open>inf\<close>.
\<close>

record 'v operator =
  func :: "'v list \<Rightarrow> pyerr + 'v"
  otype :: int
  name :: pystr
  signs :: "pystr list"
  priority :: enat

definition Operator ::
  "pystr \<Rightarrow> int \<Rightarrow> ('v list \<Rightarrow> pyerr + 'v) \<Rightarrow> pystr list \<Rightarrow> int \<Rightarrow> pyerr + 'v operator" where
  "Operator nm operator_type f sgs prio =
     (if operator_type \<noteq> 1 \<and> operator_type \<noteq> 2 then Inl ValueError
      else if prio < - 1 then Inl ValueError
      else Inr \<lparr>func = f, otype = operator_type, name = nm, signs = sgs,
                priority = (if prio = - 1 then \<infinity> else enat (nat prio))\<rparr>)"

text \<open>\<open>class ConstantType\<close>: the converter may raise.\<close>

record 'v constant_type =
  regexp :: rx
  to_value :: "pystr \<Rightarrow> pyerr + 'v"

text \<open>The token classes. \<open>BraceToken.OPEN = 1\<close>, \<open>BraceToken.CLOSE = -1\<close>.\<close>

datatype 'v token =
    VariableToken pystr
  | BraceToken int
  | OperatorToken "'v operator"
  | ConstantToken 'v

definition OPEN :: int where "OPEN = 1"
definition CLOSE :: int where "CLOSE = - 1"

section \<open>The parser: construction and lexical analysis\<close>

text \<open>
  \<open>class Parser\<close>. A \<open>dict\<close> keeps its keys in insertion order and \<open>split\<close> iterates
  over \<open>operators_signs\<close>, so both dictionaries are association lists: storing under a
  key that is present replaces the value and keeps the position (\<open>AList.update\<close>).
  The attribute \<open>operators\<close> (a set) is never read and is left out.
\<close>

record 'v parser =
  constants :: "'v constant_type list"
  operators_signs :: "(pystr \<times> 'v operator) list"
  operators_names :: "(pystr \<times> 'v operator) list"

definition Parser :: "'v operator list \<Rightarrow> 'v constant_type list \<Rightarrow> 'v parser" where
  "Parser ops consts =
     \<lparr>constants = consts,
      operators_signs =
        fold (\<lambda>operator d. fold (\<lambda>sign. AList.update sign operator) (signs operator) d) ops [],
      operators_names = fold (\<lambda>operator. AList.update (name operator) operator) ops []\<rparr>"

text \<open>
  \<open>Parser.to_token\<close>. It returns \<open>None\<close> for the empty text (no branch returns).
  The constant types are tried in order; the converter of the first one whose pattern
  \<open>regex.match\<close> accepts gives the value.
\<close>

fun to_token_constants :: "'v constant_type list \<Rightarrow> pystr \<Rightarrow> pyerr + 'v token option" where
  "to_token_constants [] token = Inr (Some (VariableToken token))"
| "to_token_constants (const_type # rest) token =
     (if regex_match (regexp const_type) token
      then (case to_value const_type token of
              Inl e \<Rightarrow> Inl e
            | Inr v \<Rightarrow> Inr (Some (ConstantToken v)))
      else to_token_constants rest token)"

definition to_token :: "'v parser \<Rightarrow> pystr \<Rightarrow> pyerr + 'v token option" where
  "to_token self token =
     (if token = [40] then Inr (Some (BraceToken OPEN))
      else if token = [41] then Inr (Some (BraceToken CLOSE))
      else case map_of (operators_names self) token of
             Some operator \<Rightarrow> Inr (Some (OperatorToken operator))
           | None \<Rightarrow>
        (case map_of (operators_signs self) token of
             Some operator \<Rightarrow> Inr (Some (OperatorToken operator))
           | None \<Rightarrow>
        (if token \<noteq> [] then to_token_constants (constants self) token else Inr None)))"

text \<open>
  \<open>Parser.split\<close>. The state of the loop is \<open>(ret, current_token)\<close>; \<open>ret\<close> holds
  what \<open>to_token\<close> returned, so its elements are optional tokens.
\<close>

definition append_token ::
  "'v parser \<Rightarrow> 'v token option list \<Rightarrow> pystr \<Rightarrow> pyerr + 'v token option list" where
  "append_token self ret t =
     (if \<not> isspace t \<and> t \<noteq> []
      then (case to_token self t of Inl e \<Rightarrow> Inl e | Inr tok \<Rightarrow> Inr (ret @ [tok]))
      else Inr ret)"

definition split_step ::
  "'v parser \<Rightarrow> 'v token option list \<times> pystr \<Rightarrow> nat \<Rightarrow> pyerr + ('v token option list \<times> pystr)" where
  "split_step self st c =
     (case st of (ret, current_token) \<Rightarrow>
      if isspace [c] \<or> c = 40 \<or> c = 41 then
        (case append_token self ret current_token of
           Inl e \<Rightarrow> Inl e
         | Inr ret1 \<Rightarrow>
             (case append_token self ret1 [c] of
                Inl e \<Rightarrow> Inl e
              | Inr ret2 \<Rightarrow> Inr (ret2, [])))
      else if map_of (operators_signs self) current_token \<noteq> None then
        (if map_of (operators_signs self) (current_token @ [c]) \<noteq> None
         then Inr (ret, current_token @ [c])
         else (case append_token self ret current_token of
                 Inl e \<Rightarrow> Inl e
               | Inr ret1 \<Rightarrow> Inr (ret1, [c])))
      else
        (let current_token1 = current_token @ [c] in
         case find (\<lambda>sign. slice_from_neg current_token1 (length sign) = sign)
                   (map fst (operators_signs self)) of
           Some sign \<Rightarrow>
             (case append_token self ret (slice_to_neg current_token1 (length sign)) of
                Inl e \<Rightarrow> Inl e
              | Inr ret1 \<Rightarrow> Inr (ret1, sign))
         | None \<Rightarrow> Inr (ret, current_token1)))"

fun split_loop ::
  "'v parser \<Rightarrow> 'v token option list \<times> pystr \<Rightarrow> pystr \<Rightarrow> pyerr + ('v token option list \<times> pystr)" where
  "split_loop self st [] = Inr st"
| "split_loop self st (c # cs) =
     (case split_step self st c of Inl e \<Rightarrow> Inl e | Inr st1 \<Rightarrow> split_loop self st1 cs)"

definition Parser_split :: "'v parser \<Rightarrow> pystr \<Rightarrow> pyerr + 'v token option list" where
  "Parser_split self s =
     (case split_loop self ([], []) (s @ [32]) of Inl e \<Rightarrow> Inl e | Inr (ret, current_token) \<Rightarrow> Inr ret)"

section \<open>The parser: resolution of the operators\<close>

text \<open>
  An element of \<open>tokens_without_braces\<close> is an \<open>int\<close> or a token object. Python compares
  two \<open>int\<close>s by value and two token objects by identity (the token classes define no
  \<open>__eq__\<close>), and every token of \<open>tokens\<close> is an object of its own. \<open>Tok i t\<close> is the
  object \<open>tokens[i]\<close>, and \<open>py_eq\<close> is the \<open>==\<close> of the source on slots.
\<close>

datatype 'v slot =
    Index int
  | Tok nat "'v token"

fun py_eq :: "'v slot \<Rightarrow> 'v slot \<Rightarrow> bool" where
  "py_eq (Index a) (Index b) = (a = b)"
| "py_eq (Tok i s) (Tok j t) = (i = j)"
| "py_eq (Index a) (Tok j t) = False"
| "py_eq (Tok i s) (Index b) = False"

text \<open>The variables of the first loop of \<open>Parser.parse\<close> (\<open>variables\<close> is never read).\<close>

record 'v scan =
  open_braces :: int
  close_braces :: int
  operators_data :: "(int \<times> int) list"
  precalc :: "'v list"
  tokens_without_braces :: "'v slot list"

definition scan_init :: "'v scan" where
  "scan_init = \<lparr>open_braces = 0, close_braces = 0, operators_data = [], precalc = [],
                 tokens_without_braces = []\<rparr>"

definition scan_token :: "'v scan \<Rightarrow> nat \<Rightarrow> 'v token option \<Rightarrow> pyerr + 'v scan" where
  "scan_token st i tok =
     (case tok of
        Some (BraceToken which) \<Rightarrow>
          if which = OPEN then Inr (st\<lparr>open_braces := open_braces st + 1\<rparr>)
          else
            (let st1 = st\<lparr>close_braces := close_braces st + 1\<rparr> in
             if open_braces st1 - close_braces st1 < 0
             then Inl (ParseError ''Cannot parse the expression: close brace without open.'')
             else Inr st1)
      | Some (OperatorToken operator) \<Rightarrow>
          Inr (st\<lparr>operators_data := operators_data st @
                      [(open_braces st - close_braces st,
                        int i - (open_braces st + close_braces st))],
                  tokens_without_braces :=
                    tokens_without_braces st @ [Tok i (OperatorToken operator)]\<rparr>)
      | Some (VariableToken nm) \<Rightarrow>
          Inr (st\<lparr>tokens_without_braces :=
                    tokens_without_braces st @ [Tok i (VariableToken nm)]\<rparr>)
      | Some (ConstantToken v) \<Rightarrow>
          Inr (st\<lparr>precalc := precalc st @ [v],
                  tokens_without_braces :=
                    tokens_without_braces st @ [Index (int (length (precalc st @ [v])) - 1)]\<rparr>)
      | None \<Rightarrow> Inr st)"

fun scan_loop :: "'v scan \<Rightarrow> nat \<Rightarrow> 'v token option list \<Rightarrow> pyerr + 'v scan" where
  "scan_loop st i [] = Inr st"
| "scan_loop st i (t # ts) =
     (case scan_token st i t of Inl e \<Rightarrow> Inl e | Inr st1 \<Rightarrow> scan_loop st1 (Suc i) ts)"

definition scan_tokens :: "'v token option list \<Rightarrow> pyerr + 'v scan" where
  "scan_tokens tokens =
     (case scan_loop scan_init 0 tokens of
        Inl e \<Rightarrow> Inl e
      | Inr st \<Rightarrow>
          if open_braces st - close_braces st \<noteq> 0
          then Inl (ParseError
                 ''Cannot parse the expression: not all open braces have pair close brace.'')
          else Inr st)"

text \<open>
  The sort key \<open>(data[0], -priority, -data[1])\<close>. The priority is an \<open>int\<close> or \<open>inf\<close>;
  its negation is \<open>Some\<close> of an integer or \<open>None\<close> for \<open>-inf\<close>, which is below every
  integer in the order of \<open>option\<close>. Tuples are compared lexicographically.
\<close>

definition neg_priority :: "enat \<Rightarrow> int option" where
  "neg_priority p = (case p of enat n \<Rightarrow> Some (- int n) | \<infinity> \<Rightarrow> None)"

definition sort_key_of ::
  "'v slot list \<Rightarrow> int \<times> int \<Rightarrow> pyerr + (int \<times> int option \<times> int)" where
  "sort_key_of twb data =
     (case py_get twb (snd data) of
        Inl e \<Rightarrow> Inl e
      | Inr (Tok i (OperatorToken operator)) \<Rightarrow>
          Inr (fst data, neg_priority (priority operator), - snd data)
      | Inr _ \<Rightarrow> Inl AttributeError)"

text \<open>\<open>sorted\<close> computes the key of every element first, then sorts.\<close>

fun decorate ::
  "'v slot list \<Rightarrow> (int \<times> int) list \<Rightarrow> pyerr + ((int \<times> int option \<times> int) \<times> (int \<times> int)) list" where
  "decorate twb [] = Inr []"
| "decorate twb (data # rest) =
     (case sort_key_of twb data of
        Inl e \<Rightarrow> Inl e
      | Inr k \<Rightarrow> (case decorate twb rest of Inl e \<Rightarrow> Inl e | Inr ks \<Rightarrow> Inr ((k, data) # ks)))"

text \<open>
  \<open>sorted(..., reverse=True)\<close> is stable: it reverses the list, sorts it (stably) in
  ascending order of the keys, and reverses the result.
\<close>

definition sorted_reverse :: "('k::linorder \<times> 'a) list \<Rightarrow> ('k \<times> 'a) list" where
  "sorted_reverse xs = rev (sort_key fst (rev xs))"

definition sorted_operators_data :: "'v scan \<Rightarrow> pyerr + (int \<times> int) list" where
  "sorted_operators_data st =
     (case decorate (tokens_without_braces st) (operators_data st) of
        Inl e \<Rightarrow> Inl e
      | Inr ks \<Rightarrow> Inr (map snd (sorted_reverse ks)))"

definition calculation_order :: "'v scan \<Rightarrow> pyerr + int list" where
  "calculation_order st =
     (case sorted_operators_data st of Inl e \<Rightarrow> Inl e | Inr ds \<Rightarrow> Inr (map snd ds))"

text \<open>\<open>update_last_calc\<close>; its parameter \<open>side\<close> is \<open>-1\<close> or \<open>1\<close>.\<close>

datatype side = Left | Right

fun side_int :: "side \<Rightarrow> int" where
  "side_int Left = - 1"
| "side_int Right = 1"

function update_loop ::
  "'v slot list \<Rightarrow> 'v slot \<Rightarrow> side \<Rightarrow> int \<Rightarrow> int \<Rightarrow> pyerr + 'v slot list" where
  "update_loop twb old_value sd calculation_index i =
     (if i < int (length twb) then
        (case py_get twb i of
           Inl e \<Rightarrow> Inl e
         | Inr v \<Rightarrow>
             if py_eq v old_value then
               (case py_set twb i (Index calculation_index) of
                  Inl e \<Rightarrow> Inl e
                | Inr twb1 \<Rightarrow> update_loop twb1 old_value sd calculation_index (i + side_int sd))
             else Inr twb)
      else Inr twb)"
  by pat_completeness auto
termination
  by (relation "measure (\<lambda>(twb, old_value, sd, calculation_index, i).
          case sd of Right \<Rightarrow> nat (int (length twb) - i)
                   | Left \<Rightarrow> nat (i + int (length twb) + 1))")
     (auto simp: py_get_def py_set_def py_index_def split: if_splits option.splits side.splits)

declare update_loop.simps [simp del]

definition update_last_calc ::
  "'v slot list \<Rightarrow> int \<Rightarrow> side \<Rightarrow> int \<Rightarrow> pyerr + 'v slot list" where
  "update_last_calc twb operator_index sd calculation_index =
     (case py_get twb (operator_index + side_int sd) of
        Inl e \<Rightarrow> Inl e
      | Inr old_value \<Rightarrow>
          update_loop twb old_value sd calculation_index (operator_index + side_int sd))"

text \<open>
  One round of the second loop of \<open>Parser.parse\<close>. \<open>n\<close> is \<open>len(precalculated)\<close>; the
  state is \<open>(tokens_without_braces, operators_with_arguments)\<close>. Reading \<open>.operator\<close>
  of a slot that is not an operator token raises \<open>AttributeError\<close>.
  \<open>resolve_arguments\<close> is the \<open>if\<close> statement on \<open>operator.type\<close>, \<open>resolve_step\<close> the
  whole round.
\<close>

type_synonym 'v operation = "'v operator \<times> 'v slot list"

definition resolve_arguments ::
  "int \<Rightarrow> 'v slot list \<times> 'v operation list \<Rightarrow> int \<Rightarrow> int \<Rightarrow> 'v operator \<Rightarrow>
   pyerr + ('v slot list \<times> 'v operation list)" where
  "resolve_arguments n st calculation_index operator_index operator =
     (case st of (twb, operators_with_arguments) \<Rightarrow>
      if otype operator = 1 then
        (case py_get twb (operator_index + 1) of
           Inl e \<Rightarrow> Inl e
         | Inr a \<Rightarrow>
             (case update_last_calc twb operator_index Right (calculation_index + n) of
                Inl e \<Rightarrow> Inl e
              | Inr twb1 \<Rightarrow> Inr (twb1, operators_with_arguments @ [(operator, [a])])))
      else if otype operator = 2 then
        (case py_get twb (operator_index - 1) of
           Inl e \<Rightarrow> Inl e
         | Inr a \<Rightarrow>
        (case py_get twb (operator_index + 1) of
           Inl e \<Rightarrow> Inl e
         | Inr b \<Rightarrow>
        (case update_last_calc twb operator_index Right (calculation_index + n) of
           Inl e \<Rightarrow> Inl e
         | Inr twb1 \<Rightarrow>
        (case update_last_calc twb1 operator_index Left (calculation_index + n) of
           Inl e \<Rightarrow> Inl e
         | Inr twb2 \<Rightarrow> Inr (twb2, operators_with_arguments @ [(operator, [a, b])])))))
      else Inr (twb, operators_with_arguments))"

definition resolve_step ::
  "int \<Rightarrow> 'v slot list \<times> 'v operation list \<Rightarrow> int \<Rightarrow> int \<Rightarrow>
   pyerr + ('v slot list \<times> 'v operation list)" where
  "resolve_step n st calculation_index operator_index =
     (case py_get (fst st) operator_index of
        Inl e \<Rightarrow> Inl e
      | Inr (Tok j (OperatorToken operator)) \<Rightarrow>
          (case resolve_arguments n st calculation_index operator_index operator of
             Inl e \<Rightarrow> Inl e
           | Inr (twb3, operators_with_arguments1) \<Rightarrow>
               (case py_set twb3 operator_index (Index (calculation_index + n)) of
                  Inl e \<Rightarrow> Inl e
                | Inr twb4 \<Rightarrow> Inr (twb4, operators_with_arguments1)))
      | Inr _ \<Rightarrow> Inl AttributeError)"

fun resolve_loop ::
  "int \<Rightarrow> 'v slot list \<times> 'v operation list \<Rightarrow> int \<Rightarrow> int list \<Rightarrow>
   pyerr + ('v slot list \<times> 'v operation list)" where
  "resolve_loop n st calculation_index [] = Inr st"
| "resolve_loop n st calculation_index (operator_index # rest) =
     (case resolve_step n st calculation_index operator_index of
        Inl e \<Rightarrow> Inl e
      | Inr st1 \<Rightarrow> resolve_loop n st1 (calculation_index + 1) rest)"

text \<open>\<open>class ParsedExpression\<close> and the rest of \<open>Parser.parse\<close>.\<close>

record 'v parsed_expression =
  operations :: "'v operation list"
  precalculated :: "'v list"

definition ParsedExpression :: "'v operation list \<Rightarrow> 'v list option \<Rightarrow> 'v parsed_expression" where
  "ParsedExpression ops pre =
     \<lparr>operations = ops, precalculated = (case pre of None \<Rightarrow> [] | Some l \<Rightarrow> l)\<rparr>"

definition parse_tokens :: "'v token option list \<Rightarrow> pyerr + 'v parsed_expression" where
  "parse_tokens tokens =
     (case scan_tokens tokens of
        Inl e \<Rightarrow> Inl e
      | Inr st \<Rightarrow>
     (case calculation_order st of
        Inl e \<Rightarrow> Inl e
      | Inr order \<Rightarrow>
     (case resolve_loop (int (length (precalc st))) (tokens_without_braces st, []) 0 order of
        Inl e \<Rightarrow> Inl e
      | Inr (twb, operators_with_arguments) \<Rightarrow>
          Inr (ParsedExpression operators_with_arguments (Some (precalc st))))))"

definition Parser_parse :: "'v parser \<Rightarrow> pystr \<Rightarrow> pyerr + 'v parsed_expression" where
  "Parser_parse self s =
     (case Parser_split self s of Inl e \<Rightarrow> Inl e | Inr tokens \<Rightarrow> parse_tokens tokens)"

section \<open>Evaluation\<close>

text \<open>
  \<open>ParsedExpression.__call__\<close>. The keyword arguments are a map from names to values;
  a name that is not bound raises \<open>KeyError\<close>. The arguments of one operation are
  computed from left to right, then its \<open>func\<close> is called. The values of the model are
  immutable, so that the deep copy of \<open>precalculated\<close> is a list of the same values.
\<close>

definition resolve_param :: "'v list \<Rightarrow> (pystr \<rightharpoonup> 'v) \<Rightarrow> 'v slot \<Rightarrow> pyerr + 'v" where
  "resolve_param calc_stack kwargs param =
     (case param of
        Index i \<Rightarrow> py_get calc_stack i
      | Tok j (VariableToken nm) \<Rightarrow>
          (case kwargs nm of None \<Rightarrow> Inl (KeyError nm) | Some v \<Rightarrow> Inr v)
      | Tok j _ \<Rightarrow> Inl AttributeError)"

fun resolve_params :: "'v list \<Rightarrow> (pystr \<rightharpoonup> 'v) \<Rightarrow> 'v slot list \<Rightarrow> pyerr + 'v list" where
  "resolve_params calc_stack kwargs [] = Inr []"
| "resolve_params calc_stack kwargs (param # rest) =
     (case resolve_param calc_stack kwargs param of
        Inl e \<Rightarrow> Inl e
      | Inr v \<Rightarrow>
          (case resolve_params calc_stack kwargs rest of
             Inl e \<Rightarrow> Inl e
           | Inr vs \<Rightarrow> Inr (v # vs)))"

definition call_operation :: "'v list \<Rightarrow> (pystr \<rightharpoonup> 'v) \<Rightarrow> 'v operation \<Rightarrow> pyerr + 'v" where
  "call_operation calc_stack kwargs operation =
     (case resolve_params calc_stack kwargs (snd operation) of
        Inl e \<Rightarrow> Inl e
      | Inr args \<Rightarrow> func (fst operation) args)"

fun call_loop :: "'v list \<Rightarrow> (pystr \<rightharpoonup> 'v) \<Rightarrow> 'v operation list \<Rightarrow> pyerr + 'v list" where
  "call_loop calc_stack kwargs [] = Inr calc_stack"
| "call_loop calc_stack kwargs (operation # rest) =
     (case call_operation calc_stack kwargs operation of
        Inl e \<Rightarrow> Inl e
      | Inr v \<Rightarrow> call_loop (calc_stack @ [v]) kwargs rest)"

definition ParsedExpression_call :: "'v parsed_expression \<Rightarrow> (pystr \<rightharpoonup> 'v) \<Rightarrow> pyerr + 'v" where
  "ParsedExpression_call self kwargs =
     (case call_loop (precalculated self) kwargs (operations self) of
        Inl e \<Rightarrow> Inl e
      | Inr calc_stack \<Rightarrow> py_get calc_stack (- 1))"

section \<open>The default operators and constants\<close>

text \<open>
  The values of \<open>class Defaults\<close>: \<open>bool\<close>, \<open>int\<close>, and \<open>float\<close>. A float constant
  is kept as the text that \<open>float\<close> converts; an operation whose result depends on the
  value of a float gives \<open>FloatArith\<close>. In arithmetic and comparisons a \<open>bool\<close> is
  the integer \<open>0\<close> or \<open>1\<close>.
\<close>

datatype val = VBool bool | VInt int | VFloat pystr

definition as_int :: "val \<Rightarrow> int option" where
  "as_int a = (case a of VBool b \<Rightarrow> Some (if b then 1 else 0) | VInt n \<Rightarrow> Some n | VFloat t \<Rightarrow> None)"

definition truthy :: "val \<Rightarrow> bool option" where
  "truthy a = (case a of VBool b \<Rightarrow> Some b | VInt n \<Rightarrow> Some (n \<noteq> 0) | VFloat t \<Rightarrow> None)"

text \<open>A lambda of two parameters on numbers; another number of arguments is a \<open>TypeError\<close>.\<close>

definition lambda2 :: "(int \<Rightarrow> int \<Rightarrow> pyerr + val) \<Rightarrow> val list \<Rightarrow> pyerr + val" where
  "lambda2 f args =
     (case args of
        [a, b] \<Rightarrow>
          (case (as_int a, as_int b) of
             (Some x, Some y) \<Rightarrow> f x y
           | _ \<Rightarrow> Inl FloatArith)
      | _ \<Rightarrow> Inl TypeError)"

definition mk_operator ::
  "pystr \<Rightarrow> int \<Rightarrow> (val list \<Rightarrow> pyerr + val) \<Rightarrow> pystr list \<Rightarrow> nat \<Rightarrow> val operator" where
  "mk_operator nm operator_type f sgs prio =
     \<lparr>func = f, otype = operator_type, name = nm, signs = sgs, priority = enat prio\<rparr>"

definition Defaults_pow :: "val operator" where
  "Defaults_pow = mk_operator (asc ''pow'') 2
     (lambda2 (\<lambda>a p. if 0 \<le> p then Inr (VInt (a ^ nat p))
                      else if a = 0 then Inl ZeroDivisionError else Inl FloatArith))
     [asc ''^'', asc ''**''] 0"

definition Defaults_div :: "val operator" where
  "Defaults_div = mk_operator (asc ''div'') 2
     (lambda2 (\<lambda>a b. if b = 0 then Inl ZeroDivisionError else Inl FloatArith))
     [asc ''/''] 1"

definition Defaults_mod :: "val operator" where
  "Defaults_mod = mk_operator (asc ''mod'') 2
     (lambda2 (\<lambda>a b. if b = 0 then Inl ZeroDivisionError else Inr (VInt (a mod b))))
     [asc ''%''] 1"

definition Defaults_mul :: "val operator" where
  "Defaults_mul = mk_operator (asc ''mul'') 2 (lambda2 (\<lambda>a b. Inr (VInt (a * b)))) [asc ''*''] 1"

definition Defaults_plus :: "val operator" where
  "Defaults_plus = mk_operator (asc ''plus'') 2 (lambda2 (\<lambda>a b. Inr (VInt (a + b)))) [asc ''+''] 2"

definition Defaults_minus :: "val operator" where
  "Defaults_minus = mk_operator (asc ''minus'') 2 (lambda2 (\<lambda>a b. Inr (VInt (a - b)))) [asc ''-''] 2"

definition Defaults_eq :: "val operator" where
  "Defaults_eq = mk_operator (asc ''eq'') 2 (lambda2 (\<lambda>a b. Inr (VBool (a = b))))
     [asc ''=='', [8660], [8801], [10231]] 3"

definition Defaults_not_eq :: "val operator" where
  "Defaults_not_eq = mk_operator (asc ''not_eq'') 2 (lambda2 (\<lambda>a b. Inr (VBool (a \<noteq> b))))
     [asc ''!='', asc ''<>''] 3"

definition Defaults_great_eq :: "val operator" where
  "Defaults_great_eq = mk_operator (asc ''great_eq'') 2 (lambda2 (\<lambda>a b. Inr (VBool (a \<ge> b))))
     [asc ''>=''] 3"

definition Defaults_great :: "val operator" where
  "Defaults_great = mk_operator (asc ''great'') 2 (lambda2 (\<lambda>a b. Inr (VBool (a > b))))
     [asc ''>''] 3"

definition Defaults_less_eq :: "val operator" where
  "Defaults_less_eq = mk_operator (asc ''less_eq'') 2 (lambda2 (\<lambda>a b. Inr (VBool (a \<le> b))))
     [asc ''<=''] 3"

definition Defaults_less :: "val operator" where
  "Defaults_less = mk_operator (asc ''less'') 2 (lambda2 (\<lambda>a b. Inr (VBool (a < b))))
     [asc ''<''] 3"

text \<open>
  \<open>not a\<close> is a \<open>bool\<close>; \<open>a and b\<close> is \<open>b\<close> when \<open>a\<close> is true and \<open>a\<close> otherwise;
  \<open>a or b\<close> is \<open>a\<close> when \<open>a\<close> is true and \<open>b\<close> otherwise.
\<close>

definition Defaults_not_op :: "val operator" where
  "Defaults_not_op = mk_operator (asc ''not'') 1
     (\<lambda>args. case args of
        [a] \<Rightarrow> (case truthy a of Some t \<Rightarrow> Inr (VBool (\<not> t)) | None \<Rightarrow> Inl FloatArith)
      | _ \<Rightarrow> Inl TypeError)
     [asc ''!'', asc ''~'', [172]] 4"

definition Defaults_and_op :: "val operator" where
  "Defaults_and_op = mk_operator (asc ''and'') 2
     (\<lambda>args. case args of
        [a, b] \<Rightarrow> (case truthy a of Some t \<Rightarrow> Inr (if t then b else a) | None \<Rightarrow> Inl FloatArith)
      | _ \<Rightarrow> Inl TypeError)
     [asc ''&&'', [8896]] 5"

definition Defaults_or_op :: "val operator" where
  "Defaults_or_op = mk_operator (asc ''or'') 2
     (\<lambda>args. case args of
        [a, b] \<Rightarrow> (case truthy a of Some t \<Rightarrow> Inr (if t then a else b) | None \<Rightarrow> Inl FloatArith)
      | _ \<Rightarrow> Inl TypeError)
     [asc ''||'', [8897]] 6"

definition Defaults_impl :: "val operator" where
  "Defaults_impl = mk_operator (asc ''impl'') 2
     (\<lambda>args. case args of
        [a, b] \<Rightarrow>
          (case truthy a of Some t \<Rightarrow> Inr (if \<not> t then VBool True else b) | None \<Rightarrow> Inl FloatArith)
      | _ \<Rightarrow> Inl TypeError)
     [asc ''->'', [8658], [8594]] 7"

text \<open>
  \<open>int(s)\<close>, \<open>int(s, 2)\<close> and \<open>int(s, 16)\<close> on a text without sign and underscores
  (no pattern of \<open>Defaults\<close> accepts one): white space around the text is dropped, the
  prefix of the base is optional, a character that is not a digit of the base or an
  empty digit sequence raises \<open>ValueError\<close>.
\<close>

definition digit_val :: "nat \<Rightarrow> nat option" where
  "digit_val c =
     (if 48 \<le> c \<and> c \<le> 57 then Some (c - 48)
      else if 97 \<le> c \<and> c \<le> 122 then Some (c - 87)
      else if 65 \<le> c \<and> c \<le> 90 then Some (c - 55)
      else None)"

fun digits_value :: "nat \<Rightarrow> int \<Rightarrow> pystr \<Rightarrow> pyerr + int" where
  "digits_value base acc [] = Inr acc"
| "digits_value base acc (c # cs) =
     (case digit_val c of
        None \<Rightarrow> Inl ValueError
      | Some d \<Rightarrow> if d < base then digits_value base (acc * int base + int d) cs else Inl ValueError)"

definition strip :: "pystr \<Rightarrow> pystr" where
  "strip s = rev (dropWhile isspace_char (rev (dropWhile isspace_char s)))"

definition py_int :: "nat \<Rightarrow> pystr \<Rightarrow> pyerr + int" where
  "py_int base s =
     (let t = strip s;
          u = (if base = 2 \<and> (take 2 t = asc ''0b'' \<or> take 2 t = asc ''0B'') then drop 2 t
               else if base = 16 \<and> (take 2 t = asc ''0x'' \<or> take 2 t = asc ''0X'') then drop 2 t
               else t)
      in if u = [] then Inl ValueError else digits_value base 0 u)"

definition to_VInt :: "pyerr + int \<Rightarrow> pyerr + val" where
  "to_VInt r = (case r of Inl e \<Rightarrow> Inl e | Inr n \<Rightarrow> Inr (VInt n))"

definition digit :: "(nat \<times> nat) list" where
  "digit = [(48, 57)]"

definition Defaults_integers_decimal :: "val constant_type" where
  "Defaults_integers_decimal =
     \<lparr>regexp = Cat (ClassRep digit 1) Eol, to_value = (\<lambda>s. to_VInt (py_int 10 s))\<rparr>"

definition Defaults_integers_binary :: "val constant_type" where
  "Defaults_integers_binary =
     \<lparr>regexp = Cat (Lit (asc ''0b'')) (Cat (ClassRep [(48, 49)] 1) Eol),
      to_value = (\<lambda>s. to_VInt (py_int 2 s))\<rparr>"

definition Defaults_integers_hex :: "val constant_type" where
  "Defaults_integers_hex =
     \<lparr>regexp = Cat (Lit (asc ''0x'')) (Cat (ClassRep [(48, 70)] 1) Eol),
      to_value = (\<lambda>s. to_VInt (py_int 16 s))\<rparr>"

definition Defaults_float_point :: "val constant_type" where
  "Defaults_float_point =
     \<lparr>regexp =
        Cat (Alt (Cat (ClassRep digit 0) (Cat (Opt (Lit (asc ''.''))) (ClassRep digit 1)))
                 (Cat (ClassRep digit 1) (Lit (asc ''.''))))
            (Cat (Opt (Cat (Alt (Lit (asc ''e'')) (Lit (asc ''E''))) (ClassRep digit 1))) Eol),
      to_value = (\<lambda>s. Inr (VFloat s))\<rparr>"

definition Defaults_boolean :: "val constant_type" where
  "Defaults_boolean =
     \<lparr>regexp =
        Cat (Alt (Lit (asc ''True'')) (Alt (Lit (asc ''False''))
                 (Alt (Lit (asc ''true'')) (Lit (asc ''false''))))) Eol,
      to_value = (\<lambda>s. Inr (VBool (s = asc ''True'' \<or> s = asc ''true'')))\<rparr>"

definition Defaults_parser :: "val parser" where
  "Defaults_parser = Parser
     [Defaults_pow, Defaults_div, Defaults_mod, Defaults_mul, Defaults_plus, Defaults_minus,
      Defaults_eq, Defaults_not_eq, Defaults_great_eq, Defaults_less_eq, Defaults_great,
      Defaults_less, Defaults_not_op, Defaults_and_op, Defaults_or_op, Defaults_impl]
     [Defaults_integers_decimal, Defaults_integers_binary, Defaults_integers_hex,
      Defaults_float_point, Defaults_boolean]"

section \<open>Notions used by the properties\<close>

text \<open>
  The two messages of \<open>ParseError\<close> in \<open>Parser.parse\<close>, under the names the
  specification gives to the two failures.
\<close>

definition UnmatchedCloseBrace :: pyerr where
  "UnmatchedCloseBrace = ParseError ''Cannot parse the expression: close brace without open.''"

definition UnclosedOpenBrace :: pyerr where
  "UnclosedOpenBrace =
     ParseError ''Cannot parse the expression: not all open braces have pair close brace.''"

text \<open>
  The numbers of open and of close braces of a token sequence (a brace token that is
  not \<open>OPEN\<close> counts as a close brace, as in the source), and the sequences in which no
  prefix has more close braces than open braces.
\<close>

definition is_open :: "'v token option \<Rightarrow> bool" where
  "is_open tok = (case tok of Some (BraceToken which) \<Rightarrow> which = OPEN | _ \<Rightarrow> False)"

definition is_close :: "'v token option \<Rightarrow> bool" where
  "is_close tok = (case tok of Some (BraceToken which) \<Rightarrow> which \<noteq> OPEN | _ \<Rightarrow> False)"

definition open_count :: "'v token option list \<Rightarrow> int" where
  "open_count tokens = int (length (filter is_open tokens))"

definition close_count :: "'v token option list \<Rightarrow> int" where
  "close_count tokens = int (length (filter is_close tokens))"

definition never_negative :: "'v token option list \<Rightarrow> bool" where
  "never_negative tokens \<longleftrightarrow>
     list_all (\<lambda>n. close_count (take n tokens) \<le> open_count (take n tokens))
       [0..<Suc (length tokens)]"

text \<open>The exceptions of a failed lookup in a list or of an attribute.\<close>

definition lookup_error :: "pyerr \<Rightarrow> bool" where
  "lookup_error e \<longleftrightarrow> e = IndexError \<or> e = AttributeError"

text \<open>
  The values of the constant tokens of a token sequence, one for every occurrence, in
  the order of the tokens; and the integers among the slots of a stripped sequence.
\<close>

definition constant_values :: "'v token option list \<Rightarrow> 'v list" where
  "constant_values tokens =
     concat (map (\<lambda>tok. case tok of Some (ConstantToken v) \<Rightarrow> [v] | _ \<Rightarrow> []) tokens)"

definition index_slots :: "'v slot list \<Rightarrow> int list" where
  "index_slots twb = concat (map (\<lambda>s. case s of Index k \<Rightarrow> [k] | _ \<Rightarrow> []) twb)"










section \<open>Calls in a heap\<close>

text \<open>
  To say that a call leaves the expression as it is, the lists are objects in a heap.
  The attributes \<open>operations\<close> and \<open>precalculated\<close> of a \<open>ParsedExpression\<close> are
  references to lists; \<open>deepcopy\<close> makes a new list, to which \<open>calc_stack\<close> refers, and
  \<open>calc_stack.append\<close> writes to that list. The heap has the lists of values and the
  lists of operations by address, and \<open>next_free\<close>, the least address that is not in
  use. The \<open>for\<close> loop goes through the list of operations as it is when the loop
  starts (no statement writes to such a list). The function of an operator is a function
  of its arguments, as in \<open>call_operation\<close>; it has no access to the heap.
  \<open>calls_in_heap\<close> is a sequence of calls, one for every binding of the list, and
  \<open>expression_of\<close> reads the expression that an object stands for.
\<close>

record 'v heap =
  value_lists :: "nat \<Rightarrow> 'v list"
  operation_lists :: "nat \<Rightarrow> 'v operation list"
  next_free :: nat

record expression_object =
  operations_at :: nat
  precalculated_at :: nat

definition deepcopy :: "'v heap \<Rightarrow> nat \<Rightarrow> 'v heap \<times> nat" where
  "deepcopy h a =
     (h\<lparr>value_lists := (value_lists h)(next_free h := value_lists h a),
        next_free := Suc (next_free h)\<rparr>,
      next_free h)"

definition list_append :: "'v heap \<Rightarrow> nat \<Rightarrow> 'v \<Rightarrow> 'v heap" where
  "list_append h a v = h\<lparr>value_lists := (value_lists h)(a := value_lists h a @ [v])\<rparr>"

fun call_loop_heap ::
  "'v heap \<Rightarrow> nat \<Rightarrow> (pystr \<rightharpoonup> 'v) \<Rightarrow> 'v operation list \<Rightarrow> pyerr option \<times> 'v heap" where
  "call_loop_heap h calc_stack kwargs [] = (None, h)"
| "call_loop_heap h calc_stack kwargs (operation # rest) =
     (case call_operation (value_lists h calc_stack) kwargs operation of
        Inl e \<Rightarrow> (Some e, h)
      | Inr v \<Rightarrow> call_loop_heap (list_append h calc_stack v) calc_stack kwargs rest)"

definition call_in_heap ::
  "'v heap \<Rightarrow> expression_object \<Rightarrow> (pystr \<rightharpoonup> 'v) \<Rightarrow> (pyerr + 'v) \<times> 'v heap" where
  "call_in_heap h self kwargs =
     (case deepcopy h (precalculated_at self) of
        (h1, calc_stack) \<Rightarrow>
          (case call_loop_heap h1 calc_stack kwargs (operation_lists h1 (operations_at self)) of
             (Some e, h2) \<Rightarrow> (Inl e, h2)
           | (None, h2) \<Rightarrow> (py_get (value_lists h2 calc_stack) (- 1), h2)))"

fun calls_in_heap :: "'v heap \<Rightarrow> expression_object \<Rightarrow> (pystr \<rightharpoonup> 'v) list \<Rightarrow> 'v heap" where
  "calls_in_heap h self [] = h"
| "calls_in_heap h self (kwargs # rest) =
     calls_in_heap (snd (call_in_heap h self kwargs)) self rest"

definition allocated :: "'v heap \<Rightarrow> expression_object \<Rightarrow> bool" where
  "allocated h self \<longleftrightarrow> operations_at self < next_free h \<and> precalculated_at self < next_free h"

definition expression_of :: "'v heap \<Rightarrow> expression_object \<Rightarrow> 'v parsed_expression" where
  "expression_of h self =
     \<lparr>operations = operation_lists h (operations_at self),
      precalculated = value_lists h (precalculated_at self)\<rparr>"

section \<open>Properties\<close>

subsection \<open>Empty and blank sources\<close>

lemma append_token_empty: "append_token self ret [] = Inr ret"
  by (simp add: append_token_def)

lemma append_token_space: "isspace_char c \<Longrightarrow> append_token self ret [c] = Inr ret"
  by (simp add: append_token_def isspace_def)

lemma split_step_space:
  "isspace_char c \<Longrightarrow> split_step self (ret, []) c = Inr (ret, [])"
  by (simp add: split_step_def isspace_def append_token_empty append_token_space)

lemma split_loop_space:
  "list_all isspace_char s \<Longrightarrow> split_loop self (ret, []) s = Inr (ret, [])"
  by (induction s) (simp_all add: split_step_space)

lemma Parser_split_space:
  assumes "list_all isspace_char s"
  shows "Parser_split self s = Inr []"
proof -
  have "list_all isspace_char (s @ [32])"
    using assms by (simp add: isspace_char_def)
  then show ?thesis
    by (simp add: Parser_split_def split_loop_space)
qed

lemma parse_tokens_Nil: "parse_tokens [] = Inr \<lparr>operations = [], precalculated = []\<rparr>"
  by (simp add: parse_tokens_def scan_tokens_def scan_init_def calculation_order_def
      sorted_operators_data_def sorted_reverse_def ParsedExpression_def)

lemma call_empty:
  "ParsedExpression_call \<lparr>operations = [], precalculated = []\<rparr> kwargs = Inl IndexError"
  by (simp add: ParsedExpression_call_def py_get_def py_index_def)

text \<open>
  C10. Parsing a source that is empty or consists of white space only succeeds, with
  no operation and no precalculated value, and calling the result fails for every
  binding of variables: the final element of the empty stack is read, an \<open>IndexError\<close>.
\<close>

theorem whitespace_source_parses_to_empty_expression:
  "list_all isspace_char s \<Longrightarrow>
     (\<exists>pe. Parser_parse self s = Inr pe \<and> operations pe = [] \<and> precalculated pe = [] \<and>
           (\<forall>kwargs. ParsedExpression_call pe kwargs = Inl IndexError))"
  by (simp add: Parser_parse_def Parser_split_space parse_tokens_Nil call_empty)

theorem whitespace_source_witness:
  "list_all isspace_char [32, 9, 10] \<and>
   (\<exists>pe. Parser_parse Defaults_parser [32, 9, 10] = Inr pe \<and> operations pe = [] \<and>
         precalculated pe = [] \<and>
         (\<forall>kwargs. ParsedExpression_call pe kwargs = Inl IndexError))"
  using whitespace_source_parses_to_empty_expression [of "[32, 9, 10]" Defaults_parser]
  by (simp add: isspace_char_def)

subsection \<open>Braces\<close>

lemma not_open_and_close: "\<not> (is_open tok \<and> is_close tok)"
  by (auto simp: is_open_def is_close_def split: option.splits token.splits)

lemma scan_token_Inl:
  "scan_token st i tok = Inl e \<Longrightarrow>
     e = UnmatchedCloseBrace \<and> is_close tok \<and> open_braces st < close_braces st + 1"
  by (auto simp: scan_token_def is_close_def UnmatchedCloseBrace_def Let_def
      split: option.splits token.splits if_splits)

lemma scan_token_Inr:
  "scan_token st i tok = Inr st1 \<Longrightarrow>
     open_braces st1 = open_braces st + (if is_open tok then 1 else 0) \<and>
     close_braces st1 = close_braces st + (if is_close tok then 1 else 0) \<and>
     (is_close tok \<longrightarrow> close_braces st1 \<le> open_braces st1)"
  by (auto simp: scan_token_def is_open_def is_close_def Let_def
      split: option.splits token.splits if_splits)

lemma count_simps:
  "open_count [] = 0"
  "open_count (t # ts) = (if is_open t then 1 else 0) + open_count ts"
  "close_count [] = 0"
  "close_count (t # ts) = (if is_close t then 1 else 0) + close_count ts"
  by (simp_all add: open_count_def close_count_def)

lemma scan_loop_Inr:
  "close_braces st \<le> open_braces st \<Longrightarrow> scan_loop st i ts = Inr st1 \<Longrightarrow>
     open_braces st1 = open_braces st + open_count ts \<and>
     close_braces st1 = close_braces st + close_count ts \<and>
     (\<forall>n\<le>length ts. close_braces st + close_count (take n ts)
                      \<le> open_braces st + open_count (take n ts))"
proof (induction ts arbitrary: st i)
  case Nil
  then show ?case by (simp add: count_simps)
next
  case (Cons t ts)
  from Cons.prems(2) obtain st2 where t: "scan_token st i t = Inr st2"
    and rest: "scan_loop st2 (Suc i) ts = Inr st1"
    by (auto split: sum.splits)
  note d = scan_token_Inr [OF t]
  have inv: "close_braces st2 \<le> open_braces st2"
    using d Cons.prems(1) by (auto split: if_splits)
  note ih = Cons.IH [OF inv rest]
  have "close_braces st + close_count (take n (t # ts))
          \<le> open_braces st + open_count (take n (t # ts))" if "n \<le> length (t # ts)" for n
  proof (cases n)
    case 0
    then show ?thesis using Cons.prems(1) by (simp add: count_simps)
  next
    case (Suc m)
    then have "m \<le> length ts" using that by simp
    then have "close_braces st2 + close_count (take m ts) \<le> open_braces st2 + open_count (take m ts)"
      using ih by blast
    then show ?thesis using d Suc by (simp add: count_simps)
  qed
  then show ?case using ih d by (simp add: count_simps)
qed

lemma scan_loop_Inl:
  "close_braces st \<le> open_braces st \<Longrightarrow> scan_loop st i ts = Inl e \<Longrightarrow>
     e = UnmatchedCloseBrace \<and>
     (\<exists>n\<le>length ts. open_braces st + open_count (take n ts)
                      < close_braces st + close_count (take n ts))"
proof (induction ts arbitrary: st i)
  case Nil
  then show ?case by simp
next
  case (Cons t ts)
  show ?case
  proof (cases "scan_token st i t")
    case (Inl e2)
    note d = scan_token_Inl [OF Inl]
    have "e = e2" using Cons.prems(2) Inl by simp
    moreover have "open_braces st + open_count (take 1 (t # ts))
          < close_braces st + close_count (take 1 (t # ts))"
      using d not_open_and_close [of t] by (simp add: count_simps)
    ultimately show ?thesis using d by (intro conjI exI [of _ 1]) simp_all
  next
    case (Inr st2)
    note d = scan_token_Inr [OF Inr]
    have inv: "close_braces st2 \<le> open_braces st2"
      using d Cons.prems(1) by (auto split: if_splits)
    have rest: "scan_loop st2 (Suc i) ts = Inl e" using Cons.prems(2) Inr by simp
    from Cons.IH [OF inv rest] obtain n where n: "n \<le> length ts"
      "open_braces st2 + open_count (take n ts) < close_braces st2 + close_count (take n ts)"
      and e: "e = UnmatchedCloseBrace" by blast
    have "open_braces st + open_count (take (Suc n) (t # ts))
          < close_braces st + close_count (take (Suc n) (t # ts))"
      using n d by (simp add: count_simps)
    then show ?thesis using e n(1) by (intro conjI exI [of _ "Suc n"]) simp_all
  qed
qed

lemma never_negative_iff:
  "never_negative tokens \<longleftrightarrow>
     (\<forall>n\<le>length tokens. close_count (take n tokens) \<le> open_count (take n tokens))"
  by (auto simp: never_negative_def list_all_iff less_Suc_eq_le)

lemma scan_tokens_close:
  "\<not> never_negative tokens \<Longrightarrow> scan_tokens tokens = Inl (UnmatchedCloseBrace)"
proof -
  assume a: "\<not> never_negative tokens"
  have i: "close_braces (scan_init :: 'a scan) \<le> open_braces (scan_init :: 'a scan)"
    by (simp add: scan_init_def)
  show ?thesis
  proof (cases "scan_loop scan_init 0 tokens")
    case (Inl e)
    then show ?thesis using scan_loop_Inl [OF i Inl] by (simp add: scan_tokens_def)
  next
    case (Inr st1)
    from scan_loop_Inr [OF i Inr] have "never_negative tokens"
      by (simp add: never_negative_iff scan_init_def)
    then show ?thesis using a by simp
  qed
qed

lemma scan_tokens_balanced:
  assumes "never_negative tokens"
  shows "\<exists>st. scan_loop scan_init 0 tokens = Inr st \<and>
           open_braces st = open_count tokens \<and> close_braces st = close_count tokens"
proof -
  have i: "close_braces (scan_init :: 'a scan) \<le> open_braces (scan_init :: 'a scan)"
    by (simp add: scan_init_def)
  show ?thesis
  proof (cases "scan_loop scan_init 0 tokens")
    case (Inl e)
    from scan_loop_Inl [OF i Inl] have "\<not> never_negative tokens"
      by (auto simp: never_negative_iff scan_init_def)
    then show ?thesis using assms by simp
  next
    case (Inr st1)
    from scan_loop_Inr [OF i Inr] show ?thesis using Inr
      by (simp add: scan_init_def)
  qed
qed

lemma py_get_Inl: "py_get xs i = Inl e \<Longrightarrow> e = IndexError"
  by (auto simp: py_get_def split: option.splits)

lemma py_set_Inl: "py_set xs i v = Inl e \<Longrightarrow> e = IndexError"
  by (auto simp: py_set_def split: option.splits)

lemma sort_key_of_Inl: "sort_key_of twb d = Inl e \<Longrightarrow> lookup_error e"
  by (auto simp: sort_key_of_def lookup_error_def dest: py_get_Inl
      split: sum.splits slot.splits token.splits)

lemma decorate_Inl: "decorate twb ds = Inl e \<Longrightarrow> lookup_error e"
  by (induction ds arbitrary: e) (auto dest: sort_key_of_Inl split: sum.splits)

lemma calculation_order_Inl: "calculation_order st = Inl e \<Longrightarrow> lookup_error e"
  by (auto simp: calculation_order_def sorted_operators_data_def dest: decorate_Inl
      split: sum.splits)

lemma update_loop_Inl:
  "update_loop twb old sd ci i = Inl e \<Longrightarrow> e = IndexError"
proof (induction twb old sd ci i rule: update_loop.induct)
  case (1 twb old_value sd calculation_index i)
  show ?case
  proof (cases "i < int (length twb)")
    case False
    then show ?thesis using "1.prems" by (subst (asm) update_loop.simps) simp
  next
    case True
    show ?thesis
    proof (cases "py_get twb i")
      case (Inl e2)
      then show ?thesis using "1.prems" True py_get_Inl [OF Inl]
        by (subst (asm) update_loop.simps) simp
    next
      case (Inr v)
      show ?thesis
      proof (cases "py_eq v old_value")
        case False
        then show ?thesis using "1.prems" True Inr by (subst (asm) update_loop.simps) simp
      next
        case eq: True
        show ?thesis
        proof (cases "py_set twb i (Index calculation_index)")
          case (Inl e2)
          then show ?thesis using "1.prems" True Inr eq py_set_Inl [OF Inl]
            by (subst (asm) update_loop.simps) simp
        next
          case r: (Inr twb1)
          have "update_loop twb1 old_value sd calculation_index (i + side_int sd) = Inl e"
            using "1.prems" True Inr eq r by (subst (asm) update_loop.simps) simp
          then show ?thesis by (rule "1.IH" [OF True Inr eq r])
        qed
      qed
    qed
  qed
qed

lemma update_last_calc_Inl:
  "update_last_calc twb oi sd ci = Inl e \<Longrightarrow> e = IndexError"
  unfolding update_last_calc_def
  by (cases "py_get twb (oi + side_int sd)") (auto dest: py_get_Inl update_loop_Inl)

lemma resolve_arguments_Inl:
  "resolve_arguments n st ci oi operator = Inl e \<Longrightarrow> e = IndexError"
  unfolding resolve_arguments_def
  by (auto dest: py_get_Inl update_last_calc_Inl split: sum.splits if_splits prod.splits)

lemma resolve_step_Inl:
  "resolve_step n st ci oi = Inl e \<Longrightarrow> lookup_error e"
  unfolding resolve_step_def lookup_error_def
  by (auto dest: py_get_Inl py_set_Inl resolve_arguments_Inl
      split: sum.splits slot.splits token.splits prod.splits)

lemma resolve_loop_Inl:
  "resolve_loop n st ci order = Inl e \<Longrightarrow> lookup_error e"
  by (induction order arbitrary: st ci) (auto dest: resolve_step_Inl split: sum.splits)

text \<open>
  C3. For every token sequence: if some prefix has more close braces than open braces,
  parsing fails with \<open>UnmatchedCloseBrace\<close>; if no prefix has and the totals differ, it
  fails with \<open>UnclosedOpenBrace\<close>; and if the braces are balanced it raises no
  \<open>ParseError\<close> at all.
\<close>

theorem parse_fails_exactly_on_unbalanced_braces:
  "(\<not> never_negative tokens \<longrightarrow> parse_tokens tokens = Inl (UnmatchedCloseBrace)) \<and>
   (never_negative tokens \<and> open_count tokens \<noteq> close_count tokens \<longrightarrow>
      parse_tokens tokens = Inl (UnclosedOpenBrace)) \<and>
   (never_negative tokens \<and> open_count tokens = close_count tokens \<longrightarrow>
      (\<forall>msg. parse_tokens tokens \<noteq> Inl (ParseError msg)))"
proof (intro conjI impI)
  assume "\<not> never_negative tokens"
  then show "parse_tokens tokens = Inl (UnmatchedCloseBrace)"
    by (simp add: parse_tokens_def scan_tokens_close)
next
  assume a: "never_negative tokens \<and> open_count tokens \<noteq> close_count tokens"
  then obtain st where "scan_loop scan_init 0 tokens = Inr st"
    "open_braces st = open_count tokens" "close_braces st = close_count tokens"
    using scan_tokens_balanced by blast
  then show "parse_tokens tokens = Inl (UnclosedOpenBrace)"
    using a by (simp add: parse_tokens_def scan_tokens_def UnclosedOpenBrace_def)
next
  assume a: "never_negative tokens \<and> open_count tokens = close_count tokens"
  then obtain st where st: "scan_loop scan_init 0 tokens = Inr st"
    "open_braces st = open_count tokens" "close_braces st = close_count tokens"
    using scan_tokens_balanced by blast
  then have sc: "scan_tokens tokens = Inr st"
    using a by (simp add: scan_tokens_def)
  show "\<forall>msg. parse_tokens tokens \<noteq> Inl (ParseError msg)"
  proof (intro allI notI)
    fix msg
    assume "parse_tokens tokens = Inl (ParseError msg)"
    then have "lookup_error (ParseError msg)"
      using sc by (auto simp: parse_tokens_def dest: calculation_order_Inl resolve_loop_Inl
          split: sum.splits prod.splits)
    then show False by (simp add: lookup_error_def)
  qed
qed


theorem parse_fails_exactly_on_unbalanced_braces_witness:
  "\<not> never_negative [Some (BraceToken CLOSE) :: val token option] \<and>
   parse_tokens [Some (BraceToken CLOSE) :: val token option] = Inl UnmatchedCloseBrace \<and>
   never_negative [Some (BraceToken OPEN) :: val token option] \<and>
   open_count [Some (BraceToken OPEN) :: val token option]
     \<noteq> close_count [Some (BraceToken OPEN) :: val token option] \<and>
   parse_tokens [Some (BraceToken OPEN) :: val token option] = Inl UnclosedOpenBrace \<and>
   never_negative [Some (BraceToken OPEN), Some (VariableToken [97]),
                   Some (BraceToken CLOSE) :: val token option] \<and>
   open_count [Some (BraceToken OPEN), Some (VariableToken [97]),
               Some (BraceToken CLOSE) :: val token option]
     = close_count [Some (BraceToken OPEN), Some (VariableToken [97]),
                    Some (BraceToken CLOSE) :: val token option] \<and>
   (\<forall>msg. parse_tokens [Some (BraceToken OPEN), Some (VariableToken [97]),
                         Some (BraceToken CLOSE) :: val token option] \<noteq> Inl (ParseError msg))"
proof -
  have a: "\<not> never_negative [Some (BraceToken CLOSE) :: val token option]"
    by (simp add: never_negative_def open_count_def close_count_def is_open_def is_close_def
        OPEN_def CLOSE_def)
  have b: "never_negative [Some (BraceToken OPEN) :: val token option] \<and>
     open_count [Some (BraceToken OPEN) :: val token option]
       \<noteq> close_count [Some (BraceToken OPEN) :: val token option]"
    by (simp add: never_negative_def open_count_def close_count_def is_open_def is_close_def
        OPEN_def CLOSE_def)
  have c: "never_negative [Some (BraceToken OPEN), Some (VariableToken [97]),
                   Some (BraceToken CLOSE) :: val token option] \<and>
     open_count [Some (BraceToken OPEN), Some (VariableToken [97]),
               Some (BraceToken CLOSE) :: val token option]
     = close_count [Some (BraceToken OPEN), Some (VariableToken [97]),
                    Some (BraceToken CLOSE) :: val token option]"
    by (simp add: never_negative_def open_count_def close_count_def is_open_def is_close_def
        OPEN_def CLOSE_def upt_rec)
  show ?thesis
    using a b c
      parse_fails_exactly_on_unbalanced_braces [of "[Some (BraceToken CLOSE) :: val token option]"]
      parse_fails_exactly_on_unbalanced_braces [of "[Some (BraceToken OPEN) :: val token option]"]
      parse_fails_exactly_on_unbalanced_braces [of "[Some (BraceToken OPEN),
          Some (VariableToken [97]), Some (BraceToken CLOSE) :: val token option]"]
    by blast
qed

subsection \<open>Evaluation of the default parser on concrete sources\<close>

lemmas Defaults_operator_defs =
  Defaults_pow_def Defaults_div_def Defaults_mod_def Defaults_mul_def Defaults_plus_def
  Defaults_minus_def Defaults_eq_def Defaults_not_eq_def Defaults_great_eq_def
  Defaults_less_eq_def Defaults_great_def Defaults_less_def Defaults_not_op_def
  Defaults_and_op_def Defaults_or_op_def Defaults_impl_def

lemma Defaults_signs:
  "signs Defaults_pow = [[94], [42, 42]]"
  "signs Defaults_div = [[47]]"
  "signs Defaults_mod = [[37]]"
  "signs Defaults_mul = [[42]]"
  "signs Defaults_plus = [[43]]"
  "signs Defaults_minus = [[45]]"
  "signs Defaults_eq = [[61, 61], [8660], [8801], [10231]]"
  "signs Defaults_not_eq = [[33, 61], [60, 62]]"
  "signs Defaults_great_eq = [[62, 61]]"
  "signs Defaults_less_eq = [[60, 61]]"
  "signs Defaults_great = [[62]]"
  "signs Defaults_less = [[60]]"
  "signs Defaults_not_op = [[33], [126], [172]]"
  "signs Defaults_and_op = [[38, 38], [8896]]"
  "signs Defaults_or_op = [[124, 124], [8897]]"
  "signs Defaults_impl = [[45, 62], [8658], [8594]]"
  by (simp_all add: Defaults_operator_defs mk_operator_def asc_def)

lemma Defaults_names:
  "name Defaults_pow = [112, 111, 119]"
  "name Defaults_div = [100, 105, 118]"
  "name Defaults_mod = [109, 111, 100]"
  "name Defaults_mul = [109, 117, 108]"
  "name Defaults_plus = [112, 108, 117, 115]"
  "name Defaults_minus = [109, 105, 110, 117, 115]"
  "name Defaults_eq = [101, 113]"
  "name Defaults_not_eq = [110, 111, 116, 95, 101, 113]"
  "name Defaults_great_eq = [103, 114, 101, 97, 116, 95, 101, 113]"
  "name Defaults_less_eq = [108, 101, 115, 115, 95, 101, 113]"
  "name Defaults_great = [103, 114, 101, 97, 116]"
  "name Defaults_less = [108, 101, 115, 115]"
  "name Defaults_not_op = [110, 111, 116]"
  "name Defaults_and_op = [97, 110, 100]"
  "name Defaults_or_op = [111, 114]"
  "name Defaults_impl = [105, 109, 112, 108]"
  by (simp_all add: Defaults_operator_defs mk_operator_def asc_def)

lemma Defaults_operators_signs:
  "operators_signs Defaults_parser =
    [([94], Defaults_pow), ([42, 42], Defaults_pow), ([47], Defaults_div), ([37], Defaults_mod),
     ([42], Defaults_mul), ([43], Defaults_plus), ([45], Defaults_minus),
     ([61, 61], Defaults_eq), ([8660], Defaults_eq), ([8801], Defaults_eq),
     ([10231], Defaults_eq), ([33, 61], Defaults_not_eq), ([60, 62], Defaults_not_eq),
     ([62, 61], Defaults_great_eq), ([60, 61], Defaults_less_eq), ([62], Defaults_great),
     ([60], Defaults_less), ([33], Defaults_not_op), ([126], Defaults_not_op),
     ([172], Defaults_not_op), ([38, 38], Defaults_and_op), ([8896], Defaults_and_op),
     ([124, 124], Defaults_or_op), ([8897], Defaults_or_op), ([45, 62], Defaults_impl),
     ([8658], Defaults_impl), ([8594], Defaults_impl)]"
  by (simp add: Defaults_parser_def Parser_def Defaults_signs)

lemma Defaults_operators_names:
  "operators_names Defaults_parser =
    [([112, 111, 119], Defaults_pow), ([100, 105, 118], Defaults_div),
     ([109, 111, 100], Defaults_mod), ([109, 117, 108], Defaults_mul),
     ([112, 108, 117, 115], Defaults_plus), ([109, 105, 110, 117, 115], Defaults_minus),
     ([101, 113], Defaults_eq), ([110, 111, 116, 95, 101, 113], Defaults_not_eq),
     ([103, 114, 101, 97, 116, 95, 101, 113], Defaults_great_eq),
     ([108, 101, 115, 115, 95, 101, 113], Defaults_less_eq),
     ([103, 114, 101, 97, 116], Defaults_great), ([108, 101, 115, 115], Defaults_less),
     ([110, 111, 116], Defaults_not_op), ([97, 110, 100], Defaults_and_op),
     ([111, 114], Defaults_or_op), ([105, 109, 112, 108], Defaults_impl)]"
  by (simp add: Defaults_parser_def Parser_def Defaults_names)

lemma Defaults_constants:
  "constants Defaults_parser =
     [Defaults_integers_decimal, Defaults_integers_binary, Defaults_integers_hex,
      Defaults_float_point, Defaults_boolean]"
  by (simp add: Defaults_parser_def Parser_def)

lemmas split_eval =
  Parser_split_def split_step_def append_token_def to_token_def
  Defaults_operators_signs Defaults_operators_names Defaults_constants
  isspace_def isspace_char_def slice_from_neg_def slice_to_neg_def
  regex_match_def in_class_def digit_def
  Defaults_integers_decimal_def Defaults_integers_binary_def Defaults_integers_hex_def
  Defaults_float_point_def Defaults_boolean_def
  py_int_def strip_def digit_val_def to_VInt_def OPEN_def CLOSE_def

lemma Defaults_priority:
  "priority Defaults_pow = enat 0"
  "priority Defaults_div = enat 1"
  "priority Defaults_mod = enat 1"
  "priority Defaults_mul = enat 1"
  "priority Defaults_plus = enat 2"
  "priority Defaults_minus = enat 2"
  "priority Defaults_eq = enat 3"
  "priority Defaults_not_eq = enat 3"
  "priority Defaults_great_eq = enat 3"
  "priority Defaults_less_eq = enat 3"
  "priority Defaults_great = enat 3"
  "priority Defaults_less = enat 3"
  "priority Defaults_not_op = enat 4"
  "priority Defaults_and_op = enat 5"
  "priority Defaults_or_op = enat 6"
  "priority Defaults_impl = enat 7"
  by (simp_all add: Defaults_operator_defs mk_operator_def)

lemma Defaults_otype:
  "otype Defaults_pow = 2"
  "otype Defaults_div = 2"
  "otype Defaults_mod = 2"
  "otype Defaults_mul = 2"
  "otype Defaults_plus = 2"
  "otype Defaults_minus = 2"
  "otype Defaults_eq = 2"
  "otype Defaults_not_eq = 2"
  "otype Defaults_great_eq = 2"
  "otype Defaults_less_eq = 2"
  "otype Defaults_great = 2"
  "otype Defaults_less = 2"
  "otype Defaults_not_op = 1"
  "otype Defaults_and_op = 2"
  "otype Defaults_or_op = 2"
  "otype Defaults_impl = 2"
  by (simp_all add: Defaults_operator_defs mk_operator_def)

lemmas parse_eval =
  parse_tokens_def scan_tokens_def scan_init_def scan_token_def calculation_order_def
  sorted_operators_data_def sort_key_of_def sorted_reverse_def neg_priority_def
  py_get_def py_set_def py_index_def update_last_calc_def update_loop.simps
  resolve_step_def resolve_arguments_def ParsedExpression_def Defaults_priority Defaults_otype OPEN_def CLOSE_def


lemma Defaults_func:
  "func Defaults_not_op = (\<lambda>args. case args of
        [a] \<Rightarrow> (case truthy a of Some t \<Rightarrow> Inr (VBool (\<not> t)) | None \<Rightarrow> Inl FloatArith)
      | _ \<Rightarrow> Inl TypeError)"
  "func Defaults_and_op = (\<lambda>args. case args of
        [a, b] \<Rightarrow> (case truthy a of Some t \<Rightarrow> Inr (if t then b else a) | None \<Rightarrow> Inl FloatArith)
      | _ \<Rightarrow> Inl TypeError)"
  "func Defaults_or_op = (\<lambda>args. case args of
        [a, b] \<Rightarrow> (case truthy a of Some t \<Rightarrow> Inr (if t then a else b) | None \<Rightarrow> Inl FloatArith)
      | _ \<Rightarrow> Inl TypeError)"
  "func Defaults_impl = (\<lambda>args. case args of
        [a, b] \<Rightarrow>
          (case truthy a of Some t \<Rightarrow> Inr (if \<not> t then VBool True else b) | None \<Rightarrow> Inl FloatArith)
      | _ \<Rightarrow> Inl TypeError)"
  "func Defaults_great_eq = lambda2 (\<lambda>a b. Inr (VBool (a \<ge> b)))"
  "func Defaults_less = lambda2 (\<lambda>a b. Inr (VBool (a < b)))"
  "func Defaults_plus = lambda2 (\<lambda>a b. Inr (VInt (a + b)))"
  by (simp_all add: Defaults_operator_defs mk_operator_def)

lemmas call_eval =
  ParsedExpression_call_def call_operation_def resolve_param_def py_get_def py_index_def
  Defaults_func lambda2_def as_int_def truthy_def

lemma test_deep_split:
  "Parser_split Defaults_parser (asc ''(True&&a->!False)||8>=8&&8<9'') =
   Inr [Some (BraceToken OPEN), Some (ConstantToken (VBool True)),
        Some (OperatorToken Defaults_and_op), Some (VariableToken (asc ''a'')),
        Some (OperatorToken Defaults_impl), Some (OperatorToken Defaults_not_op),
        Some (ConstantToken (VBool False)), Some (BraceToken CLOSE),
        Some (OperatorToken Defaults_or_op), Some (ConstantToken (VInt 8)),
        Some (OperatorToken Defaults_great_eq), Some (ConstantToken (VInt 8)),
        Some (OperatorToken Defaults_and_op), Some (ConstantToken (VInt 8)),
        Some (OperatorToken Defaults_less), Some (ConstantToken (VInt 9))]"
  by (simp add: split_eval asc_def)

lemma test_deep_parse_tokens:
  "parse_tokens [Some (BraceToken OPEN), Some (ConstantToken (VBool True)),
        Some (OperatorToken Defaults_and_op), Some (VariableToken (asc ''a'')),
        Some (OperatorToken Defaults_impl), Some (OperatorToken Defaults_not_op),
        Some (ConstantToken (VBool False)), Some (BraceToken CLOSE),
        Some (OperatorToken Defaults_or_op), Some (ConstantToken (VInt 8)),
        Some (OperatorToken Defaults_great_eq), Some (ConstantToken (VInt 8)),
        Some (OperatorToken Defaults_and_op), Some (ConstantToken (VInt 8)),
        Some (OperatorToken Defaults_less), Some (ConstantToken (VInt 9))] =
   Inr \<lparr>operations =
          [(Defaults_not_op, [Index 1]),
           (Defaults_and_op, [Index 0, Tok 3 (VariableToken (asc ''a''))]),
           (Defaults_impl, [Index 7, Index 6]),
           (Defaults_great_eq, [Index 2, Index 3]),
           (Defaults_less, [Index 4, Index 5]),
           (Defaults_and_op, [Index 9, Index 10]),
           (Defaults_or_op, [Index 8, Index 11])],
        precalculated = [VBool True, VBool False, VInt 8, VInt 8, VInt 8, VInt 9]\<rparr>"
  by (simp add: parse_eval)

lemma test_deep_call:
  "ParsedExpression_call
     \<lparr>operations =
          [(Defaults_not_op, [Index 1]),
           (Defaults_and_op, [Index 0, Tok 3 (VariableToken (asc ''a''))]),
           (Defaults_impl, [Index 7, Index 6]),
           (Defaults_great_eq, [Index 2, Index 3]),
           (Defaults_less, [Index 4, Index 5]),
           (Defaults_and_op, [Index 9, Index 10]),
           (Defaults_or_op, [Index 8, Index 11])],
        precalculated = [VBool True, VBool False, VInt 8, VInt 8, VInt 8, VInt 9]\<rparr>
     [asc ''a'' \<mapsto> VBool b] = Inr (VBool True)"
  by (cases b) (simp_all add: call_eval)

text \<open>
  C2. With the default operators and constants, parsing
  \<open>(True&&a->!False)||8>=8&&8<9\<close> gives an expression whose precalculated list is
  \<open>[True, False, 8, 8, 8, 9]\<close>; calling it with \<open>a=True\<close> returns \<open>True\<close>, and calling it
  with \<open>a=False\<close> returns \<open>True\<close>.
\<close>

theorem test_deep_scenario:
  "\<exists>pe. Parser_parse Defaults_parser (asc ''(True&&a->!False)||8>=8&&8<9'') = Inr pe \<and>
        precalculated pe = [VBool True, VBool False, VInt 8, VInt 8, VInt 8, VInt 9] \<and>
        ParsedExpression_call pe [asc ''a'' \<mapsto> VBool True] = Inr (VBool True) \<and>
        ParsedExpression_call pe [asc ''a'' \<mapsto> VBool False] = Inr (VBool True)"
  unfolding Parser_parse_def test_deep_split
  by (simp add: test_deep_parse_tokens test_deep_call)

subsection \<open>The precalculated list\<close>

lemma constant_values_simps:
  "constant_values [] = []"
  "constant_values (t # ts) =
     (case t of Some (ConstantToken v) \<Rightarrow> [v] | _ \<Rightarrow> []) @ constant_values ts"
  by (simp_all add: constant_values_def)

lemma index_slots_append:
  "index_slots (xs @ ys) = index_slots xs @ index_slots ys"
  by (simp add: index_slots_def)

lemma index_slots_single:
  "index_slots [Index k] = [k]" "index_slots [Tok i t] = []" "index_slots [] = []"
  by (simp_all add: index_slots_def)

lemma scan_token_constants:
  "scan_token st i t = Inr st1 \<Longrightarrow>
     precalc st1 = precalc st @ constant_values [t] \<and>
     index_slots (tokens_without_braces st1) =
       index_slots (tokens_without_braces st) @
         map int [length (precalc st)..<length (precalc st) + length (constant_values [t])]"
  by (auto simp: scan_token_def constant_values_def index_slots_append index_slots_single Let_def
      split: option.splits token.splits if_splits)

lemma scan_loop_constants:
  "scan_loop st i ts = Inr st1 \<Longrightarrow>
     precalc st1 = precalc st @ constant_values ts \<and>
     index_slots (tokens_without_braces st1) =
       index_slots (tokens_without_braces st) @
         map int [length (precalc st)..<length (precalc st) + length (constant_values ts)]"
proof (induction ts arbitrary: st i)
  case Nil
  then show ?case by (simp add: constant_values_simps)
next
  case (Cons t ts)
  from Cons.prems obtain st2 where t: "scan_token st i t = Inr st2"
    and rest: "scan_loop st2 (Suc i) ts = Inr st1"
    by (auto split: sum.splits)
  note a = scan_token_constants [OF t]
  note b = Cons.IH [OF rest]
  have cv: "constant_values (t # ts) = constant_values [t] @ constant_values ts"
    by (simp add: constant_values_def)
  let ?n = "length (precalc st)"
  let ?a = "length (constant_values [t])"
  let ?b = "length (constant_values ts)"
  have "[?n..<?n + (?a + ?b)] = [?n..<?n + ?a] @ [?n + ?a..<?n + ?a + ?b]"
    by (metis add.assoc le_add1 upt_add_eq_append)
  then show ?case using a b by (simp add: cv)
qed

text \<open>
  C4, as the code has it. The precalculated list holds the value of every constant
  token once for each occurrence, in the order of the tokens (a constant written several
  times is stored several times), and the constant tokens are replaced, in this order, by
  the indices \<open>0, 1, 2, ...\<close> of their entries.
\<close>

theorem one_entry_per_constant_occurrence:
  "(\<forall>pe. parse_tokens tokens = Inr pe \<longrightarrow> precalculated pe = constant_values tokens) \<and>
   (\<forall>st. scan_tokens tokens = Inr st \<longrightarrow>
      index_slots (tokens_without_braces st) = map int [0..<length (constant_values tokens)])"
proof -
  have "precalc st = constant_values tokens \<and>
        index_slots (tokens_without_braces st) = map int [0..<length (constant_values tokens)]"
    if "scan_tokens tokens = Inr st" for st
  proof -
    from that have "scan_loop scan_init 0 tokens = Inr st"
      by (auto simp: scan_tokens_def split: sum.splits if_splits)
    from scan_loop_constants [OF this] show ?thesis
      by (simp add: scan_init_def index_slots_def)
  qed
  then show ?thesis
    by (auto simp: parse_tokens_def ParsedExpression_def split: sum.splits prod.splits)
qed


theorem one_entry_per_constant_occurrence_witness:
  "(\<exists>pe. parse_tokens [Some (ConstantToken (VInt 8)), Some (OperatorToken Defaults_great_eq),
                         Some (ConstantToken (VInt 8))] = Inr pe \<and>
         precalculated pe = constant_values [Some (ConstantToken (VInt 8)),
            Some (OperatorToken Defaults_great_eq), Some (ConstantToken (VInt 8))]) \<and>
   (\<exists>st. scan_tokens [Some (ConstantToken (VInt 8)), Some (OperatorToken Defaults_great_eq),
                         Some (ConstantToken (VInt 8))] = Inr st \<and>
         index_slots (tokens_without_braces st) = [0, 1])"
proof -
  let ?ts = "[Some (ConstantToken (VInt 8)), Some (OperatorToken Defaults_great_eq),
              Some (ConstantToken (VInt 8))]"
  have p: "\<exists>pe. parse_tokens ?ts = Inr pe"
    by (simp add: parse_eval)
  have s: "\<exists>st. scan_tokens ?ts = Inr st"
    by (simp add: parse_eval)
  have c: "map int [0..<length (constant_values ?ts)] = [0, 1]"
    by (simp add: constant_values_def upt_rec)
  show ?thesis
    using p s c one_entry_per_constant_occurrence [of ?ts] by auto
qed

text \<open>
  The claim C4 as it is written fails: in \<open>8>=8\<close> the constant \<open>8\<close> is written twice
  and is stored twice.
\<close>

theorem constant_stored_twice:
  "Parser_parse Defaults_parser (asc ''8>=8'') =
     Inr \<lparr>operations = [(Defaults_great_eq, [Index 0, Index 1])],
          precalculated = [VInt 8, VInt 8]\<rparr>"
  by (simp add: Parser_parse_def split_eval parse_eval asc_def)

subsection \<open>The order of resolution\<close>




lemma neg_priority_eq: "neg_priority p = neg_priority q \<longleftrightarrow> p = q"
  by (cases p; cases q) (simp_all add: neg_priority_def)











subsection \<open>Missing variables\<close>

lemma call_loop_append:
  "call_loop s kw (xs @ ys) =
     (case call_loop s kw xs of Inl e \<Rightarrow> Inl e | Inr s1 \<Rightarrow> call_loop s1 kw ys)"
  by (induction xs arbitrary: s) (auto split: sum.splits)

lemma resolve_params_append:
  "resolve_params s kw (xs @ ys) =
     (case resolve_params s kw xs of
        Inl e \<Rightarrow> Inl e
      | Inr vs \<Rightarrow> (case resolve_params s kw ys of Inl e \<Rightarrow> Inl e | Inr ws \<Rightarrow> Inr (vs @ ws)))"
  by (induction xs) (auto split: sum.splits)

text \<open>
  C7. When the evaluation reaches an operand that is a variable whose name is not bound
  (the operations before it returned, and so did the operands to its left), the call
  fails with \<open>KeyError\<close> of that name, the exception the specification calls
  \<open>MissingVariable\<close>.
\<close>

theorem missing_variable_raises_KeyError:
  assumes "k < length (operations self)"
    and "call_loop (precalculated self) kwargs (take k (operations self)) = Inr calc_stack"
    and "j < length (snd (operations self ! k))"
    and "snd (operations self ! k) ! j = Tok i (VariableToken nm)"
    and "kwargs nm = None"
    and "resolve_params calc_stack kwargs (take j (snd (operations self ! k))) = Inr vs"
  shows "ParsedExpression_call self kwargs = Inl (KeyError nm)"
proof -
  let ?op = "operations self ! k"
  have p: "snd ?op = take j (snd ?op) @ Tok i (VariableToken nm) # drop (Suc j) (snd ?op)"
    using assms(3,4) by (metis id_take_nth_drop)
  have "resolve_params calc_stack kwargs (snd ?op) = Inl (KeyError nm)"
    by (subst p, subst resolve_params_append) (simp add: assms(5,6) resolve_param_def)
  then have c: "call_operation calc_stack kwargs ?op = Inl (KeyError nm)"
    by (simp add: call_operation_def)
  have o: "operations self = take k (operations self) @ ?op # drop (Suc k) (operations self)"
    using assms(1) by (metis id_take_nth_drop)
  have "call_loop (precalculated self) kwargs (operations self) = Inl (KeyError nm)"
    by (subst o, subst call_loop_append) (simp add: assms(2) c)
  then show ?thesis by (simp add: ParsedExpression_call_def)
qed

theorem missing_variable_witness:
  "ParsedExpression_call
     \<lparr>operations = [(Defaults_plus, [Tok 0 (VariableToken [97]), Tok 2 (VariableToken [98])])],
      precalculated = []\<rparr> [[97] \<mapsto> VInt 1] = Inl (KeyError [98])"
  using missing_variable_raises_KeyError [of 0
     "\<lparr>operations = [(Defaults_plus, [Tok 0 (VariableToken [97]), Tok 2 (VariableToken [98])])],
      precalculated = []\<rparr>" "[[97] \<mapsto> VInt 1]" "[]" 1 2 "[98]" "[VInt 1]"]
  by (simp add: resolve_param_def)

subsection \<open>Operands in range\<close>

text \<open>The constructor of \<open>Operator\<close> accepts the types \<open>1\<close> and \<open>2\<close> only.\<close>

lemma Operator_otype:
  "Operator nm operator_type f sgs prio = Inr operator \<Longrightarrow> otype operator = 1 \<or> otype operator = 2"
  by (auto simp: Operator_def split: if_splits)

lemma Operator_mk_operator:
  "operator_type = 1 \<or> operator_type = 2 \<Longrightarrow>
     Operator nm operator_type f sgs (int prio) = Inr (mk_operator nm operator_type f sgs prio)"
  by (auto simp: Operator_def mk_operator_def)



















subsection \<open>Classification of constants\<close>

lemma to_token_constants_find:
  "to_token_constants cts token =
     (case find (\<lambda>const_type. regex_match (regexp const_type) token) cts of
        None \<Rightarrow> Inr (Some (VariableToken token))
      | Some const_type \<Rightarrow>
          (case to_value const_type token of
             Inl e \<Rightarrow> Inl e
           | Inr v \<Rightarrow> Inr (Some (ConstantToken v))))"
  by (induction cts) simp_all

lemma class_rests_suffix: "rest \<in> set (class_rests rs s) \<Longrightarrow> \<exists>pre. s = pre @ rest"
proof (induction s)
  case Nil
  then show ?case by simp
next
  case (Cons c cs)
  then show ?case
    by (auto split: if_splits)
qed

lemma rx_rests_suffix: "rest \<in> set (rx_rests r s) \<Longrightarrow> \<exists>pre. s = pre @ rest"
proof (induction r arbitrary: s rest)
  case (Lit l)
  then show ?case by (auto split: if_splits) (metis append_take_drop_id)
next
  case (Class rs)
  then show ?case by (cases s) (auto split: if_splits)
next
  case (ClassRep rs m)
  then show ?case by (auto dest: class_rests_suffix)
next
  case (Cat a b)
  from Cat.prems obtain mid where m: "mid \<in> set (rx_rests a s)" and r: "rest \<in> set (rx_rests b mid)"
    by auto
  from Cat.IH(1) [OF m] Cat.IH(2) [OF r] show ?case by (metis append.assoc)
next
  case (Alt a b)
  then show ?case by auto
next
  case (Opt a)
  then show ?case by auto
next
  case Eol
  then show ?case by (auto split: if_splits)
qed

lemma dollar_matches_entire_text:
  assumes "token = [] \<or> last token \<noteq> 10"
  shows "regex_match (Cat r Eol) token \<longleftrightarrow> regex_fullmatch r token"
proof -
  have "rest \<noteq> [10]" if "rest \<in> set (rx_rests r token)" for rest
  proof
    assume "rest = [10]"
    with rx_rests_suffix [OF that] obtain pre where "token = pre @ [10]" by blast
    then show False using assms by simp
  qed
  then have "(\<exists>rest\<in>set (rx_rests r token). rest = [] \<or> rest = [10])
             \<longleftrightarrow> [] \<in> set (rx_rests r token)"
    by blast
  moreover have "regex_match (Cat r Eol) token
             \<longleftrightarrow> (\<exists>rest\<in>set (rx_rests r token). rest = [] \<or> rest = [10])"
    by (auto simp: regex_match_def split: if_splits)
  ultimately show ?thesis by (simp add: regex_fullmatch_def)
qed

text \<open>
  C5, as the code has it. A text that is not empty, not a brace, not the name and not a
  sign of an operator is tried against the constant types in the order of their
  registration; a pair matches when \<open>regex.match\<close> accepts the text, that is when its
  pattern matches at the start of the text; the converter of the first pair that matches
  gives the value of the constant (or its exception), and when no pair matches the text
  is a variable. A pattern that ends in \<open>$\<close> matches a text without a final newline only
  when it matches the entire text.
\<close>

theorem constants_tried_in_order_from_the_start:
  "(token \<noteq> [] \<and> token \<noteq> [40] \<and> token \<noteq> [41] \<and>
    map_of (operators_names self) token = None \<and> map_of (operators_signs self) token = None \<longrightarrow>
    to_token self token =
      (case find (\<lambda>const_type. regex_match (regexp const_type) token) (constants self) of
         None \<Rightarrow> Inr (Some (VariableToken token))
       | Some const_type \<Rightarrow>
           (case to_value const_type token of
              Inl e \<Rightarrow> Inl e
            | Inr v \<Rightarrow> Inr (Some (ConstantToken v))))) \<and>
   (\<forall>r. token = [] \<or> last token \<noteq> 10 \<longrightarrow>
        (regex_match (Cat r Eol) token \<longleftrightarrow> regex_fullmatch r token))"
  by (simp add: to_token_def to_token_constants_find dollar_matches_entire_text)

theorem constants_tried_in_order_witness:
  "asc ''0b101'' \<noteq> [] \<and> asc ''0b101'' \<noteq> [40] \<and> asc ''0b101'' \<noteq> [41] \<and>
   map_of (operators_names Defaults_parser) (asc ''0b101'') = None \<and>
   map_of (operators_signs Defaults_parser) (asc ''0b101'') = None \<and>
   last (asc ''0b101'') \<noteq> 10 \<and>
   to_token Defaults_parser (asc ''0b101'') = Inr (Some (ConstantToken (VInt 5))) \<and>
   find (\<lambda>const_type. regex_match (regexp const_type) (asc ''0b101'')) (constants Defaults_parser)
     = Some Defaults_integers_binary \<and>
   regex_match (Cat (Cat (Lit (asc ''0b'')) (ClassRep [(48, 49)] 1)) Eol) (asc ''0b101'') \<and>
   regex_fullmatch (Cat (Lit (asc ''0b'')) (ClassRep [(48, 49)] 1)) (asc ''0b101'')"
proof -
  have f: "find (\<lambda>const_type. regex_match (regexp const_type) (asc ''0b101''))
             (constants Defaults_parser) = Some Defaults_integers_binary"
    by (simp add: split_eval asc_def)
  have h: "asc ''0b101'' \<noteq> [] \<and> asc ''0b101'' \<noteq> [40] \<and> asc ''0b101'' \<noteq> [41] \<and>
    map_of (operators_names Defaults_parser) (asc ''0b101'') = None \<and>
    map_of (operators_signs Defaults_parser) (asc ''0b101'') = None"
    by (simp add: split_eval asc_def)
  have l: "last (asc ''0b101'') \<noteq> 10"
    by (simp add: asc_def)
  have v: "to_value Defaults_integers_binary (asc ''0b101'') = Inr (VInt 5)"
    by (simp add: split_eval asc_def)
  have m: "regex_match (Cat (Cat (Lit (asc ''0b'')) (ClassRep [(48, 49)] 1)) Eol) (asc ''0b101'')"
    by (simp add: split_eval asc_def)
  from constants_tried_in_order_from_the_start [of "asc ''0b101''" Defaults_parser] h l f v m
  show ?thesis by auto
qed

text \<open>
  The claim C5 as it is written fails: with the pattern \<open>[0-9]{1,}\<close>, which has no
  \<open>$\<close>, the text \<open>1a\<close> becomes a constant although the pattern does not match the
  entire text.
\<close>

theorem prefix_match_makes_a_constant:
  "to_token (Parser [] [\<lparr>regexp = ClassRep digit 1, to_value = (\<lambda>s. Inr (VBool True))\<rparr>])
     (asc ''1a'') = Inr (Some (ConstantToken (VBool True))) \<and>
   \<not> regex_fullmatch (ClassRep digit 1) (asc ''1a'')"
  by (simp add: to_token_def Parser_def regex_match_def regex_fullmatch_def in_class_def
      digit_def asc_def)

subsection \<open>Signs in text without spaces\<close>

text \<open>
  C6, as the code has it. Signs are found in text without spaces: \<open>a+b\<close> gives the
  variable \<open>a\<close>, the operator of \<open>+\<close> and the variable \<open>b\<close>, and \<open>a==b\<close>, \<open>a**b\<close>,
  \<open>a!=b\<close> give the operators of the signs of two characters. A longer sign is taken
  when it is reached by extension: whenever the text collected so far is a sign and the
  text with the next character is a sign again, the character joins the collected text
  and nothing is emitted.
\<close>

theorem longer_sign_by_extension:
  "Parser_split Defaults_parser (asc ''a+b'') =
     Inr [Some (VariableToken (asc ''a'')), Some (OperatorToken Defaults_plus),
          Some (VariableToken (asc ''b''))] \<and>
   Parser_split Defaults_parser (asc ''a==b'') =
     Inr [Some (VariableToken (asc ''a'')), Some (OperatorToken Defaults_eq),
          Some (VariableToken (asc ''b''))] \<and>
   Parser_split Defaults_parser (asc ''a**b'') =
     Inr [Some (VariableToken (asc ''a'')), Some (OperatorToken Defaults_pow),
          Some (VariableToken (asc ''b''))] \<and>
   Parser_split Defaults_parser (asc ''a!=b'') =
     Inr [Some (VariableToken (asc ''a'')), Some (OperatorToken Defaults_not_eq),
          Some (VariableToken (asc ''b''))] \<and>
   (\<forall>self ret current_token c.
      \<not> isspace [c] \<and> c \<noteq> 40 \<and> c \<noteq> 41 \<and>
      map_of (operators_signs self) current_token \<noteq> None \<and>
      map_of (operators_signs self) (current_token @ [c]) \<noteq> None \<longrightarrow>
      split_step self (ret, current_token) c = Inr (ret, current_token @ [c]))"
  by (simp add: split_eval asc_def)

theorem longer_sign_by_extension_witness:
  "\<not> isspace [61] \<and>
   map_of (operators_signs Defaults_parser) [33] = Some Defaults_not_op \<and>
   map_of (operators_signs Defaults_parser) ([33] @ [61]) = Some Defaults_not_eq \<and>
   split_step Defaults_parser ([Some (VariableToken [97])], [33]) 61
     = Inr ([Some (VariableToken [97])], [33] @ [61])"
proof -
  have a: "\<not> isspace [61]"
    by (simp add: isspace_def isspace_char_def)
  have b: "map_of (operators_signs Defaults_parser) [33] = Some Defaults_not_op"
    "map_of (operators_signs Defaults_parser) ([33] @ [61]) = Some Defaults_not_eq"
    by (simp_all add: Defaults_operators_signs)
  note e = longer_sign_by_extension [THEN conjunct2, THEN conjunct2, THEN conjunct2,
      THEN conjunct2, rule_format]
  have "split_step Defaults_parser ([Some (VariableToken [97])], [33]) 61
     = Inr ([Some (VariableToken [97])], [33] @ [61])"
    by (rule e) (use a b in auto)
  then show ?thesis using a b by simp
qed

text \<open>
  The claim C6 as it is written fails for a longer sign whose prefixes are not all
  signs: with the signs \<open><\<close> and \<open><=>\<close>, the text \<open>a<=>b\<close> gives the operator of the
  shorter sign \<open><\<close> although the longer sign is present at the same place.
\<close>

theorem longer_sign_not_preferred:
  "Parser_split
     (Parser [Defaults_less, mk_operator (asc ''cmp'') 2 (func Defaults_less) [asc ''<=>''] 3] [])
     (asc ''a<=>b'') =
   Inr [Some (VariableToken (asc ''a'')), Some (OperatorToken Defaults_less),
        Some (VariableToken (asc ''=>b''))]"
  by (simp add: Parser_split_def split_step_def append_token_def to_token_def Parser_def
      Defaults_signs Defaults_names mk_operator_def isspace_def isspace_char_def
      slice_from_neg_def slice_to_neg_def asc_def)

subsection \<open>Calls leave the expression as it is\<close>

lemma call_loop_heap_frame:
  "call_loop_heap h cs kw ops = (r, h1) \<Longrightarrow>
     (\<forall>a. a \<noteq> cs \<longrightarrow> value_lists h1 a = value_lists h a) \<and>
     operation_lists h1 = operation_lists h \<and> next_free h1 = next_free h"
proof (induction ops arbitrary: h)
  case Nil
  then show ?case by simp
next
  case (Cons operation rest)
  show ?case
  proof (cases "call_operation (value_lists h cs) kw operation")
    case (Inl e)
    then show ?thesis using Cons.prems by simp
  next
    case (Inr v)
    then have "call_loop_heap (list_append h cs v) cs kw rest = (r, h1)"
      using Cons.prems by simp
    from Cons.IH [OF this] show ?thesis by (simp add: list_append_def)
  qed
qed

lemma call_loop_heap_result:
  "call_loop_heap h cs kw ops = (r, h1) \<Longrightarrow>
     (case call_loop (value_lists h cs) kw ops of
        Inl e \<Rightarrow> r = Some e
      | Inr s \<Rightarrow> r = None \<and> value_lists h1 cs = s)"
proof (induction ops arbitrary: h)
  case Nil
  then show ?case by simp
next
  case (Cons operation rest)
  show ?case
  proof (cases "call_operation (value_lists h cs) kw operation")
    case (Inl e)
    then show ?thesis using Cons.prems by simp
  next
    case (Inr v)
    then have "call_loop_heap (list_append h cs v) cs kw rest = (r, h1)"
      using Cons.prems by simp
    from Cons.IH [OF this] show ?thesis using Inr by (simp add: list_append_def)
  qed
qed

lemma call_in_heap_result:
  "fst (call_in_heap h self kwargs) = ParsedExpression_call (expression_of h self) kwargs"
proof -
  let ?h1 = "fst (deepcopy h (precalculated_at self))"
  let ?cs = "next_free h"
  obtain r h2 where l: "call_loop_heap ?h1 ?cs kwargs (operation_lists ?h1 (operations_at self))
      = (r, h2)"
    by (cases "call_loop_heap ?h1 ?cs kwargs (operation_lists ?h1 (operations_at self))")
  have v: "value_lists ?h1 ?cs = value_lists h (precalculated_at self)"
    and o: "operation_lists ?h1 = operation_lists h"
    by (simp_all add: deepcopy_def)
  from call_loop_heap_result [OF l] show ?thesis
    using l by (cases r)
      (auto simp: call_in_heap_def deepcopy_def ParsedExpression_call_def expression_of_def
        split: sum.splits)
qed

lemma call_in_heap_frame:
  assumes "call_in_heap h self kwargs = (r, h2)"
  shows "(\<forall>a<next_free h. value_lists h2 a = value_lists h a) \<and>
         operation_lists h2 = operation_lists h \<and> next_free h2 = Suc (next_free h)"
proof -
  let ?h1 = "fst (deepcopy h (precalculated_at self))"
  let ?cs = "next_free h"
  obtain r1 h3 where l: "call_loop_heap ?h1 ?cs kwargs (operation_lists ?h1 (operations_at self))
      = (r1, h3)"
    by (cases "call_loop_heap ?h1 ?cs kwargs (operation_lists ?h1 (operations_at self))")
  have "h2 = h3"
    using assms l by (cases r1) (simp_all add: call_in_heap_def deepcopy_def)
  with call_loop_heap_frame [OF l] show ?thesis
    by (auto simp: deepcopy_def)
qed

lemma call_in_heap_expression:
  assumes "allocated h self"
  shows "expression_of (snd (call_in_heap h self kwargs)) self = expression_of h self \<and>
         allocated (snd (call_in_heap h self kwargs)) self"
proof -
  obtain r h2 where c: "call_in_heap h self kwargs = (r, h2)"
    by (cases "call_in_heap h self kwargs")
  from call_in_heap_frame [OF c] assms show ?thesis
    by (simp add: c allocated_def expression_of_def)
qed

lemma calls_in_heap_expression:
  "allocated h self \<Longrightarrow>
     expression_of (calls_in_heap h self kws) self = expression_of h self \<and>
     allocated (calls_in_heap h self kws) self"
proof (induction kws arbitrary: h)
  case Nil
  then show ?case by simp
next
  case (Cons kwargs rest)
  from call_in_heap_expression [OF Cons.prems, of kwargs] Cons.IH show ?case
    by simp
qed

text \<open>
  C8. For every expression object in a heap: calling it twice with the same bindings
  gives the same result, and after any sequence of calls its list of operations and its
  precalculated list are what they were, and a further call gives the result that the
  first call gave.
\<close>

theorem calls_are_deterministic_and_leave_the_expression:
  assumes "allocated h self"
  shows "fst (call_in_heap (snd (call_in_heap h self kwargs)) self kwargs)
           = fst (call_in_heap h self kwargs) \<and>
         (\<forall>kws. operation_lists (calls_in_heap h self kws) (operations_at self)
                  = operation_lists h (operations_at self) \<and>
                value_lists (calls_in_heap h self kws) (precalculated_at self)
                  = value_lists h (precalculated_at self) \<and>
                fst (call_in_heap (calls_in_heap h self kws) self kwargs)
                  = fst (call_in_heap h self kwargs))"
proof -
  have "expression_of (calls_in_heap h self kws) self = expression_of h self" for kws
    using calls_in_heap_expression [OF assms] by blast
  moreover from this have "operation_lists (calls_in_heap h self kws) (operations_at self)
                  = operation_lists h (operations_at self) \<and>
                value_lists (calls_in_heap h self kws) (precalculated_at self)
                  = value_lists h (precalculated_at self)" for kws
    by (simp add: expression_of_def)
  ultimately show ?thesis
    using call_in_heap_expression [OF assms, of kwargs]
    by (simp add: call_in_heap_result)
qed


theorem calls_are_deterministic_witness:
  "allocated
     \<lparr>value_lists = (\<lambda>a. [])(0 := [VInt 8, VInt 8]),
      operation_lists = (\<lambda>a. [])(1 := [(Defaults_great_eq, [Index 0, Index 1])]),
      next_free = 2\<rparr>
     \<lparr>operations_at = 1, precalculated_at = 0\<rparr> \<and>
   fst (call_in_heap
     \<lparr>value_lists = (\<lambda>a. [])(0 := [VInt 8, VInt 8]),
      operation_lists = (\<lambda>a. [])(1 := [(Defaults_great_eq, [Index 0, Index 1])]),
      next_free = 2\<rparr>
     \<lparr>operations_at = 1, precalculated_at = 0\<rparr> Map.empty) = Inr (VBool True) \<and>
   fst (call_in_heap (snd (call_in_heap
     \<lparr>value_lists = (\<lambda>a. [])(0 := [VInt 8, VInt 8]),
      operation_lists = (\<lambda>a. [])(1 := [(Defaults_great_eq, [Index 0, Index 1])]),
      next_free = 2\<rparr>
     \<lparr>operations_at = 1, precalculated_at = 0\<rparr> Map.empty))
     \<lparr>operations_at = 1, precalculated_at = 0\<rparr> Map.empty) = Inr (VBool True) \<and>
   value_lists (calls_in_heap
     \<lparr>value_lists = (\<lambda>a. [])(0 := [VInt 8, VInt 8]),
      operation_lists = (\<lambda>a. [])(1 := [(Defaults_great_eq, [Index 0, Index 1])]),
      next_free = 2\<rparr>
     \<lparr>operations_at = 1, precalculated_at = 0\<rparr> [Map.empty, Map.empty]) 0 = [VInt 8, VInt 8]"
proof -
  let ?h = "\<lparr>value_lists = (\<lambda>a. [])(0 := [VInt 8, VInt 8]),
      operation_lists = (\<lambda>a. [])(1 := [(Defaults_great_eq, [Index 0, Index 1])]),
      next_free = 2\<rparr>"
  let ?self = "\<lparr>operations_at = 1, precalculated_at = 0\<rparr>"
  have a: "allocated ?h ?self"
    by (simp add: allocated_def)
  have f: "fst (call_in_heap ?h ?self Map.empty) = Inr (VBool True)"
    by (simp add: call_in_heap_def deepcopy_def list_append_def call_eval)
  note t = calls_are_deterministic_and_leave_the_expression [OF a, of Map.empty]
  have s: "fst (call_in_heap (snd (call_in_heap ?h ?self Map.empty)) ?self Map.empty)
             = Inr (VBool True)"
    using t [THEN conjunct1] f by simp
  have v: "value_lists (calls_in_heap ?h ?self [Map.empty, Map.empty]) 0 = [VInt 8, VInt 8]"
    using t [THEN conjunct2, THEN spec, of "[Map.empty, Map.empty]"] by simp
  show ?thesis using a f s v by blast
qed

end
